theory Spec2Isabelle
  imports Main
begin

section \<open>Taxonomy tables (model/types)\<close>

text \<open>
  Element kinds, relationship kinds and category names are JavaScript strings at run time;
  they are kept as strings here, so that a kind outside every enumeration is an input
  like any other. The layer is the closed union type \<open>Layer\<close> of the type declarations.
\<close>

definition MotivationElementTypes :: "string list" where
  "MotivationElementTypes =
    [''Stakeholder'', ''Driver'', ''Assessment'', ''Goal'', ''Outcome'',
     ''Principle'', ''Requirement'', ''Constraint'', ''Meaning'', ''Value'']"

definition StrategyElementTypes :: "string list" where
  "StrategyElementTypes = [''Resource'', ''Capability'', ''ValueStream'', ''CourseOfAction'']"

definition BusinessElementTypes :: "string list" where
  "BusinessElementTypes =
    [''BusinessActor'', ''BusinessRole'', ''BusinessCollaboration'', ''BusinessInterface'',
     ''BusinessProcess'', ''BusinessFunction'', ''BusinessInteraction'', ''BusinessEvent'',
     ''BusinessService'', ''BusinessObject'', ''Contract'', ''Representation'', ''Product'']"

definition ApplicationElementTypes :: "string list" where
  "ApplicationElementTypes =
    [''ApplicationComponent'', ''ApplicationCollaboration'', ''ApplicationInterface'',
     ''ApplicationFunction'', ''ApplicationInteraction'', ''ApplicationProcess'',
     ''ApplicationEvent'', ''ApplicationService'', ''DataObject'']"

definition TechnologyElementTypes :: "string list" where
  "TechnologyElementTypes =
    [''Node'', ''Device'', ''SystemSoftware'', ''TechnologyCollaboration'',
     ''TechnologyInterface'', ''Path'', ''CommunicationNetwork'', ''TechnologyFunction'',
     ''TechnologyProcess'', ''TechnologyInteraction'', ''TechnologyEvent'',
     ''TechnologyService'', ''Artifact'', ''Equipment'', ''Facility'',
     ''DistributionNetwork'', ''Material'']"

definition ImplementationElementTypes :: "string list" where
  "ImplementationElementTypes =
    [''WorkPackage'', ''Deliverable'', ''ImplementationEvent'', ''Plateau'', ''Gap'']"

definition CompositeElementTypes :: "string list" where
  "CompositeElementTypes = [''Grouping'', ''Location'']"

definition AllElementTypes :: "string list" where
  "AllElementTypes =
    MotivationElementTypes @ StrategyElementTypes @ BusinessElementTypes @
    ApplicationElementTypes @ TechnologyElementTypes @ ImplementationElementTypes @
    CompositeElementTypes"

definition RelationshipTypes :: "string list" where
  "RelationshipTypes =
    [''Composition'', ''Aggregation'', ''Assignment'', ''Realization'',
     ''Serving'', ''Access'', ''Influence'', ''Association'',
     ''Triggering'', ''Flow'', ''Specialization'']"

datatype Layer =
  Motivation | Strategy | Business | Application | Technology | Physical
  | Implementation | Composite

text \<open>Every \<open>throw new Error\<close> of the modelled code is a value of this type.\<close>

datatype error =
  UnknownElementType string
  | ModelFileNotFound string
  | MissingRootElement
  | ReadFileFailed
  | UndefinedFolder
  | XmlParserFailed

definition physicalTypes :: "string list" where
  "physicalTypes = [''Equipment'', ''Facility'', ''DistributionNetwork'', ''Material'']"

definition getLayerForElementType :: "string \<Rightarrow> error + Layer" where
  "getLayerForElementType elementType =
    (if elementType \<in> set MotivationElementTypes then Inr Motivation
     else if elementType \<in> set StrategyElementTypes then Inr Strategy
     else if elementType \<in> set BusinessElementTypes then Inr Business
     else if elementType \<in> set ApplicationElementTypes then Inr Application
     else if elementType \<in> set TechnologyElementTypes then
       (if elementType \<in> set physicalTypes then Inr Physical else Inr Technology)
     else if elementType \<in> set ImplementationElementTypes then Inr Implementation
     else if elementType \<in> set CompositeElementTypes then Inr Composite
     else Inl (UnknownElementType elementType))"

section \<open>Relationship validation (relationships/validation)\<close>

definition activeStructure :: "string list" where
  "activeStructure =
    [''BusinessActor'', ''BusinessRole'', ''BusinessCollaboration'',
     ''ApplicationComponent'', ''ApplicationCollaboration'',
     ''Node'', ''Device'', ''SystemSoftware'', ''TechnologyCollaboration'',
     ''Equipment'', ''Facility'']"

definition interfaces :: "string list" where
  "interfaces = [''BusinessInterface'', ''ApplicationInterface'', ''TechnologyInterface'']"

definition behaviorInternal :: "string list" where
  "behaviorInternal =
    [''BusinessProcess'', ''BusinessFunction'', ''BusinessInteraction'',
     ''ApplicationFunction'', ''ApplicationInteraction'', ''ApplicationProcess'',
     ''TechnologyFunction'', ''TechnologyProcess'', ''TechnologyInteraction'']"

definition services :: "string list" where
  "services = [''BusinessService'', ''ApplicationService'', ''TechnologyService'']"

definition events :: "string list" where
  "events =
    [''BusinessEvent'', ''ApplicationEvent'', ''TechnologyEvent'', ''ImplementationEvent'']"

definition passiveStructure :: "string list" where
  "passiveStructure =
    [''BusinessObject'', ''Contract'', ''Representation'',
     ''DataObject'', ''Artifact'', ''Material'']"

definition strategy :: "string list" where
  "strategy = [''Resource'', ''Capability'', ''ValueStream'', ''CourseOfAction'']"

definition motivation :: "string list" where
  "motivation =
    [''Stakeholder'', ''Driver'', ''Assessment'', ''Goal'', ''Outcome'',
     ''Principle'', ''Requirement'', ''Constraint'', ''Meaning'', ''Value'']"

definition implMigration :: "string list" where
  "implMigration = [''WorkPackage'', ''Deliverable'', ''Plateau'', ''Gap'']"

definition composite :: "string list" where
  "composite = [''Grouping'', ''Location'', ''Product'']"

definition getElementCategory :: "string \<Rightarrow> string" where
  "getElementCategory elementType =
    (if elementType \<in> set activeStructure \<or> elementType \<in> set interfaces
       then ''ActiveStructure''
     else if elementType \<in> set behaviorInternal then ''BehaviorInternal''
     else if elementType \<in> set services then ''BehaviorExternal''
     else if elementType \<in> set events then ''Event''
     else if elementType \<in> set passiveStructure then ''PassiveStructure''
     else if elementType \<in> set strategy then ''Strategy''
     else if elementType \<in> set motivation then ''Motivation''
     else if elementType \<in> set implMigration then ''ImplementationMigration''
     else if elementType \<in> set composite then ''Composite''
     else ''Composite'')"

text \<open>
  \<open>isSameLayer\<close> calls \<open>getLayerForElementType\<close> on the source first, then on the
  target; the first call that throws decides the error.
\<close>

definition isSameLayer :: "string \<Rightarrow> string \<Rightarrow> error + bool" where
  "isSameLayer sourceType targetType =
    (case getLayerForElementType sourceType of
       Inl e \<Rightarrow> Inl e
     | Inr ls \<Rightarrow>
        (case getLayerForElementType targetType of
           Inl e \<Rightarrow> Inl e
         | Inr lt \<Rightarrow> Inr (ls = lt)))"

fun getLayerLevel :: "Layer \<Rightarrow> nat" where
  "getLayerLevel Motivation = 0"
| "getLayerLevel Strategy = 1"
| "getLayerLevel Business = 2"
| "getLayerLevel Application = 3"
| "getLayerLevel Technology = 4"
| "getLayerLevel Physical = 4"
| "getLayerLevel Implementation = 5"
| "getLayerLevel Composite = 6"

text \<open>
  The \<open>switch\<close> of \<open>isValidRelationship\<close>, entered once both layers have been
  computed. Inside it \<open>isSameLayer\<close> cannot throw any more, so its result is read as
  a boolean.
\<close>

definition relationshipSwitch ::
  "string \<Rightarrow> string \<Rightarrow> string \<Rightarrow> string \<Rightarrow> string \<Rightarrow> Layer \<Rightarrow> Layer \<Rightarrow> bool" where
  "relationshipSwitch sourceType targetType relationshipType
      sourceCategory targetCategory sourceLayer targetLayer =
    (if relationshipType = ''Composition'' \<or> relationshipType = ''Aggregation'' then
       (if sourceType = targetType then True
        else if sourceCategory = ''Composite'' \<or> targetCategory = ''Composite'' then True
        else if isSameLayer sourceType targetType = Inr True then True
        else False)
     else if relationshipType = ''Specialization'' then sourceType = targetType
     else if relationshipType = ''Assignment'' then
       ((sourceCategory = ''ActiveStructure'' \<and>
           (targetCategory = ''BehaviorInternal'' \<or> targetCategory = ''BehaviorExternal'')) \<or>
        (sourceCategory = ''BehaviorInternal'' \<and> targetCategory = ''PassiveStructure'') \<or>
        (sourceType = ''WorkPackage'' \<and> sourceCategory = ''ActiveStructure''))
     else if relationshipType = ''Realization'' then
       (if sourceCategory = ''BehaviorInternal'' \<and> targetCategory = ''BehaviorExternal''
          then True
        else if getLayerLevel sourceLayer > getLayerLevel targetLayer then True
        else if targetCategory = ''Strategy'' then True
        else if targetCategory = ''Motivation'' then True
        else if sourceType = ''Artifact'' then True
        else False)
     else if relationshipType = ''Serving'' then
       (if sourceCategory = ''BehaviorExternal'' then True
        else if sourceCategory = ''ActiveStructure'' \<and> targetCategory = ''ActiveStructure''
          then True
        else if getLayerLevel sourceLayer > getLayerLevel targetLayer then True
        else if sourceType = ''Capability'' \<and> targetType = ''ValueStream'' then True
        else isSameLayer sourceType targetType = Inr True)
     else if relationshipType = ''Access'' then
       ((sourceCategory = ''BehaviorInternal'' \<or> sourceCategory = ''BehaviorExternal'' \<or>
         sourceCategory = ''Event'') \<and>
        targetCategory = ''PassiveStructure'')
     else if relationshipType = ''Influence'' then targetCategory = ''Motivation''
     else if relationshipType = ''Triggering'' then
       (sourceCategory = ''Event'' \<or>
        sourceCategory = ''BehaviorInternal'' \<or>
        sourceCategory = ''BehaviorExternal'' \<or>
        targetCategory = ''Event'' \<or>
        targetCategory = ''BehaviorInternal'' \<or>
        targetCategory = ''BehaviorExternal'' \<or>
        sourceCategory = ''ImplementationMigration'' \<or>
        targetCategory = ''ImplementationMigration'')
     else if relationshipType = ''Flow'' then
       (sourceCategory = ''BehaviorInternal'' \<or>
        sourceCategory = ''BehaviorExternal'' \<or>
        sourceCategory = ''Event'' \<or>
        targetCategory = ''BehaviorInternal'' \<or>
        targetCategory = ''BehaviorExternal'' \<or>
        targetCategory = ''Event'' \<or>
        sourceCategory = ''PassiveStructure'' \<or>
        targetCategory = ''PassiveStructure'')
     else if relationshipType = ''Association'' then True
     else False)"

definition isValidRelationship :: "string \<Rightarrow> string \<Rightarrow> string \<Rightarrow> error + bool" where
  "isValidRelationship sourceType targetType relationshipType =
    (let sourceCategory = getElementCategory sourceType;
         targetCategory = getElementCategory targetType
     in case getLayerForElementType sourceType of
          Inl e \<Rightarrow> Inl e
        | Inr sourceLayer \<Rightarrow>
           (case getLayerForElementType targetType of
              Inl e \<Rightarrow> Inl e
            | Inr targetLayer \<Rightarrow>
               Inr (relationshipSwitch sourceType targetType relationshipType
                      sourceCategory targetCategory sourceLayer targetLayer)))"

text \<open>\<open>Array.prototype.filter\<close> with a predicate that may throw: the first throw ends it.\<close>

fun filterThrowing :: "('a \<Rightarrow> error + bool) \<Rightarrow> 'a list \<Rightarrow> error + 'a list" where
  "filterThrowing p [] = Inr []"
| "filterThrowing p (x # xs) =
    (case p x of
       Inl e \<Rightarrow> Inl e
     | Inr b \<Rightarrow>
        (case filterThrowing p xs of
           Inl e \<Rightarrow> Inl e
         | Inr ys \<Rightarrow> Inr (if b then x # ys else ys)))"

definition getValidRelationshipTypes :: "string \<Rightarrow> string \<Rightarrow> error + string list" where
  "getValidRelationshipTypes sourceType targetType =
    filterThrowing (\<lambda>relType. isValidRelationship sourceType targetType relType)
      [''Composition'', ''Aggregation'', ''Assignment'', ''Realization'',
       ''Serving'', ''Access'', ''Influence'', ''Association'',
       ''Triggering'', ''Flow'', ''Specialization'']"

definition getValidTargetTypes :: "string \<Rightarrow> string \<Rightarrow> error + string list" where
  "getValidTargetTypes sourceType relationshipType =
    filterThrowing (\<lambda>targetType. isValidRelationship sourceType targetType relationshipType)
      (MotivationElementTypes @ StrategyElementTypes @ BusinessElementTypes @
       ApplicationElementTypes @ TechnologyElementTypes @ ImplementationElementTypes @
       CompositeElementTypes)"

record ValidationResult =
  valid :: bool
  error :: "string option"
  suggestions :: "string list option"

definition validateRelationship :: "string \<Rightarrow> string \<Rightarrow> string \<Rightarrow> error + ValidationResult" where
  "validateRelationship sourceType targetType relationshipType =
    (case isValidRelationship sourceType targetType relationshipType of
       Inl e \<Rightarrow> Inl e
     | Inr True \<Rightarrow> Inr \<lparr>valid = True, error = None, suggestions = None\<rparr>
     | Inr False \<Rightarrow>
        (case getValidRelationshipTypes sourceType targetType of
           Inl e \<Rightarrow> Inl e
         | Inr validTypes \<Rightarrow>
            (if length validTypes = 0 then
               Inr \<lparr>valid = False,
                    error = Some (''No valid relationships exist between '' @ sourceType @
                                  '' and '' @ targetType @ '' in ArchiMate 3.2''),
                    suggestions = Some []\<rparr>
             else
               Inr \<lparr>valid = False,
                    error = Some (relationshipType @ '' is not a valid relationship between '' @
                                  sourceType @ '' and '' @ targetType),
                    suggestions = Some validTypes\<rparr>)))"

text \<open>
  The ten category names of the specification. The code never returns \<open>Interface\<close>:
  the three interface kinds are classified as \<open>ActiveStructure\<close>.
\<close>

definition specCategories :: "string list" where
  "specCategories =
    [''ActiveStructure'', ''Interface'', ''BehaviorInternal'', ''BehaviorExternal'',
     ''Event'', ''PassiveStructure'', ''Strategy'', ''Motivation'',
     ''ImplementationMigration'', ''Composite'']"

section \<open>Domain model (model/types)\<close>

text \<open>
  Layout coordinates are JavaScript numbers. The model has the integers, which is what
  the file formats hold, and \<open>NaN\<close>, which \<open>parseInt\<close> returns on text without
  digits. Fractions and the rounding of doubles are outside the model.
\<close>

datatype number = Num int | NaN

datatype AccessType = Read | Write | ReadWrite

record ArchiMateProperty =
  p_key :: string
  p_value :: string

record ArchiMateElement =
  e_id :: string
  e_type :: string
  e_name :: string
  e_documentation :: "string option"
  e_properties :: "ArchiMateProperty list option"

record ArchiMateRelationship =
  r_id :: string
  r_type :: string
  r_sourceId :: string
  r_targetId :: string
  r_name :: "string option"
  r_documentation :: "string option"
  r_accessType :: "AccessType option"
  r_influenceModifier :: "string option"
  r_properties :: "ArchiMateProperty list option"

record DiagramBounds =
  b_x :: number
  b_y :: number
  b_width :: number
  b_height :: number

record DiagramBendpoint =
  bp_x :: number
  bp_y :: number

record DiagramConnection =
  c_id :: string
  c_sourceId :: string
  c_targetId :: string
  c_relationshipId :: string
  c_bendpoints :: "DiagramBendpoint list option"

datatype DiagramObject =
  DiagramObject (o_id: string) (o_elementId: string) (o_bounds: DiagramBounds)
    (o_sourceConnections: "DiagramConnection list option")
    (o_targetConnectionIds: "string list option")
    (o_children: "DiagramObject list option")

record ArchiMateDiagram =
  d_id :: string
  d_name :: string
  d_viewpoint :: "string option"
  d_documentation :: "string option"
  d_objects :: "DiagramObject list"

datatype ArchiMateFolder =
  ArchiMateFolder (f_id: string) (f_name: string) (f_type: string)
    (f_elements: "ArchiMateElement list") (f_subfolders: "ArchiMateFolder list")

record ArchiMateModel =
  m_id :: string
  m_name :: string
  m_version :: string
  m_documentation :: "string option"
  m_folders :: "ArchiMateFolder list"
  m_relationships :: "ArchiMateRelationship list"
  m_diagrams :: "ArchiMateDiagram list"

text \<open>
  \<open>collectFromFolder\<close> of \<open>getAllElements\<close>: the elements of a folder, then those of
  its subfolders, in order.
\<close>

fun collectFromFolder :: "ArchiMateFolder \<Rightarrow> ArchiMateElement list" where
  "collectFromFolder (ArchiMateFolder i n t es subs) =
     es @ concat (map collectFromFolder subs)"

definition getAllElements :: "ArchiMateModel \<Rightarrow> ArchiMateElement list" where
  "getAllElements model = concat (map collectFromFolder (m_folders model))"

text \<open>
  \<open>collectObjects\<close> of the exchange writer's \<open>buildView\<close>, restricted to the nodes:
  every diagram object of a list with its nested children, parents first.
\<close>

fun collectObjects :: "DiagramObject list \<Rightarrow> DiagramObject list" where
  "collectObjects [] = []"
| "collectObjects (DiagramObject i e b sc tc ch # objects) =
     DiagramObject i e b sc tc ch #
       (case ch of None \<Rightarrow> [] | Some cs \<Rightarrow> collectObjects cs) @ collectObjects objects"

section \<open>Mutation operations (model/writer)\<close>

text \<open>
  The operations mutate the model in place and return it; here they return the new
  model. \<open>removeFromFolder\<close> is the local function of \<open>removeElementFromModel\<close>,
  applied to one folder.
\<close>

fun removeFromFolder :: "string \<Rightarrow> ArchiMateFolder \<Rightarrow> ArchiMateFolder" where
  "removeFromFolder elementId (ArchiMateFolder i n t es subs) =
     ArchiMateFolder i n t (filter (\<lambda>e. e_id e \<noteq> elementId) es)
       (map (removeFromFolder elementId) subs)"

definition removeElementFromModel :: "ArchiMateModel \<Rightarrow> string \<Rightarrow> ArchiMateModel" where
  "removeElementFromModel model elementId =
     model
       \<lparr>m_folders := map (removeFromFolder elementId) (m_folders model),
        m_relationships :=
          filter (\<lambda>r. r_sourceId r \<noteq> elementId \<and> r_targetId r \<noteq> elementId)
            (m_relationships model),
        m_diagrams :=
          map (\<lambda>diagram.
                 diagram\<lparr>d_objects :=
                   filter (\<lambda>o'. o_elementId o' \<noteq> elementId) (d_objects diagram)\<rparr>)
            (m_diagrams model)\<rparr>"

fun filterSourceConnections :: "string \<Rightarrow> DiagramObject \<Rightarrow> DiagramObject" where
  "filterSourceConnections relationshipId (DiagramObject i e b sc tc ch) =
     DiagramObject i e b
       (case sc of
          None \<Rightarrow> None
        | Some cs \<Rightarrow> Some (filter (\<lambda>c. c_relationshipId c \<noteq> relationshipId) cs))
       tc ch"

definition removeRelationshipFromModel :: "ArchiMateModel \<Rightarrow> string \<Rightarrow> ArchiMateModel" where
  "removeRelationshipFromModel model relationshipId =
     model
       \<lparr>m_relationships :=
          filter (\<lambda>r. r_id r \<noteq> relationshipId) (m_relationships model),
        m_diagrams :=
          map (\<lambda>diagram.
                 diagram\<lparr>d_objects :=
                   map (filterSourceConnections relationshipId) (d_objects diagram)\<rparr>)
            (m_diagrams model)\<rparr>"

text \<open>
  All diagram objects of a model, nested ones included, and all the connections they hold.
\<close>

definition allDiagramObjects :: "ArchiMateModel \<Rightarrow> DiagramObject list" where
  "allDiagramObjects model =
     concat (map (\<lambda>diagram. collectObjects (d_objects diagram)) (m_diagrams model))"

definition connectionsOf :: "DiagramObject \<Rightarrow> DiagramConnection list" where
  "connectionsOf obj = (case o_sourceConnections obj of None \<Rightarrow> [] | Some cs \<Rightarrow> cs)"

definition allDiagramConnections :: "ArchiMateModel \<Rightarrow> DiagramConnection list" where
  "allDiagramConnections model = concat (map connectionsOf (allDiagramObjects model))"

section \<open>Numbers as text\<close>

text \<open>
  \<open>String(n)\<close> on an integer: the decimal digits below \<open>10\<^sup>2\<^sup>1\<close> in magnitude,
  exponent notation from there on. \<open>parseInt(s, 10)\<close>: leading white space, a sign,
  then the longest run of decimal digits; \<open>NaN\<close> when there is no digit.
\<close>

definition digitChar :: "int \<Rightarrow> char" where
  "digitChar d = char_of (48 + d)"

function decimalDigits :: "int \<Rightarrow> string" where
  "decimalDigits n =
     (if n < 10 then [digitChar n] else decimalDigits (n div 10) @ [digitChar (n mod 10)])"
  by pat_completeness auto
termination
  by (relation "measure nat") auto

declare decimalDigits.simps [simp del]

definition stripTrailingZeros :: "string \<Rightarrow> string" where
  "stripTrailingZeros ds = rev (dropWhile (\<lambda>c. c = CHR ''0'') (rev ds))"

definition exponentNotation :: "int \<Rightarrow> string" where
  "exponentNotation n =
     (let ds = decimalDigits n;
          significand = stripTrailingZeros ds;
          exponent = decimalDigits (int (length ds) - 1)
      in (if length significand \<le> 1 then significand
          else hd significand # CHR ''.'' # tl significand) @ ''e+'' @ exponent)"

definition numberToString :: "number \<Rightarrow> string" where
  "numberToString v =
     (case v of
        NaN \<Rightarrow> ''NaN''
      | Num i \<Rightarrow>
          (let body = (if \<bar>i\<bar> < 10 ^ 21 then decimalDigits \<bar>i\<bar> else exponentNotation \<bar>i\<bar>)
           in if i < 0 then CHR ''-'' # body else body))"

definition isWhiteSpace :: "char \<Rightarrow> bool" where
  "isWhiteSpace c =
     (c \<in> set [CHR '' '', CHR 0x09, CHR 0x0A, CHR 0x0B, CHR 0x0C, CHR 0x0D])"

definition isDigit :: "char \<Rightarrow> bool" where
  "isDigit c = (48 \<le> (of_char c :: int) \<and> (of_char c :: int) \<le> 57)"

definition digitsValue :: "string \<Rightarrow> int" where
  "digitsValue ds = foldl (\<lambda>acc c. 10 * acc + (of_char c - 48)) 0 ds"

definition parseInt :: "string \<Rightarrow> number" where
  "parseInt s =
     (let trimmed = dropWhile isWhiteSpace s;
          negative = (case trimmed of c # _ \<Rightarrow> c = CHR ''-'' | [] \<Rightarrow> False);
          unsigned = (case trimmed of
                        c # rest \<Rightarrow> if c = CHR ''-'' \<or> c = CHR ''+'' then rest else trimmed
                      | [] \<Rightarrow> []);
          ds = takeWhile isDigit unsigned
      in if ds = [] then NaN
         else if negative then Num (- digitsValue ds) else Num (digitsValue ds))"

section \<open>The object tree of the hierarchical format\<close>

text \<open>
  The XML text itself is produced and read by the library \<open>fast-xml-parser\<close>. The
  writer hands it an object tree and the reader receives one; the records below are the
  interfaces \<open>XmlElement\<close>, \<open>XmlFolder\<close>, \<open>XmlConnection\<close>, \<open>XmlBendpoint\<close>,
  \<open>XmlBounds\<close>, \<open>XmlProperty\<close> and \<open>XmlModel\<close> of the parser. An attribute that
  may be absent is an option; a child that is a single node, an array or absent is a
  list, which is what \<open>toArray\<close> makes of it.
\<close>

record XmlProperty =
  xp_key :: string
  xp_value :: string

record XmlBounds =
  xb_x :: "string option"
  xb_y :: "string option"
  xb_width :: "string option"
  xb_height :: "string option"

record XmlBendpoint =
  xbp_x :: "string option"
  xbp_y :: "string option"

record XmlConnection =
  xc_xsi_type :: "string option"
  xc_id :: string
  xc_source :: string
  xc_target :: string
  xc_archimateRelationship :: "string option"
  xc_bendpoint :: "XmlBendpoint list"

record XmlElementFields =
  xe_xsi_type :: "string option"
  xe_name :: "string option"
  xe_id :: "string option"
  xe_source :: "string option"
  xe_target :: "string option"
  xe_accessType :: "string option"
  xe_modifier :: "string option"
  xe_archimateElement :: "string option"
  xe_archimateRelationship :: "string option"
  xe_targetConnections :: "string option"
  xe_documentation :: "string option"
  xe_property :: "XmlProperty list"
  xe_bounds :: "XmlBounds option"
  xe_sourceConnection :: "XmlConnection list"

datatype XmlElement = XmlElement (xe_fields: XmlElementFields) (xe_child: "XmlElement list")

datatype XmlFolder =
  XmlFolder (xf_name: string) (xf_id: string) (xf_type: "string option")
    (xf_element: "XmlElement list") (xf_folder: "XmlFolder list")

record XmlModel =
  xm_name :: string
  xm_id :: string
  xm_version :: "string option"
  xm_documentation :: "string option"
  xm_folder :: "XmlFolder list"

text \<open>An object literal with no key set yet.\<close>

definition emptyFields :: XmlElementFields where
  "emptyFields =
     \<lparr>xe_xsi_type = None, xe_name = None, xe_id = None, xe_source = None, xe_target = None,
      xe_accessType = None, xe_modifier = None, xe_archimateElement = None,
      xe_archimateRelationship = None, xe_targetConnections = None,
      xe_documentation = None, xe_property = [], xe_bounds = None,
      xe_sourceConnection = []\<rparr>"

text \<open>
  Truthiness of a value that is a string or \<open>undefined\<close>, and \<open>a || d\<close> on it: the
  empty string counts as absent.
\<close>

definition truthy :: "string option \<Rightarrow> bool" where
  "truthy a = (case a of None \<Rightarrow> False | Some s \<Rightarrow> s \<noteq> [])"

definition orElse :: "string option \<Rightarrow> string \<Rightarrow> string" where
  "orElse a d = (case a of None \<Rightarrow> d | Some s \<Rightarrow> if s = [] then d else s)"

text \<open>
  The tables \<open>XmlTypeToElementType\<close> and \<open>XmlTypeToRelationshipType\<close> list, in the
  order of \<open>AllElementTypes\<close> and of \<open>RelationshipTypes\<close>, one entry
  \<open>archimate:Kind \<mapsto> Kind\<close> per element kind and one entry
  \<open>archimate:KindRelationship \<mapsto> Kind\<close> per relationship kind. The inverse tables
  are built from their entries swapped. Only the own keys of the tables are modelled.
\<close>

definition XmlTypeToElementType_entries :: "(string \<times> string) list" where
  "XmlTypeToElementType_entries = map (\<lambda>t. (''archimate:'' @ t, t)) AllElementTypes"

definition XmlTypeToElementType :: "string \<Rightarrow> string option" where
  "XmlTypeToElementType = map_of XmlTypeToElementType_entries"

definition ElementTypeToXmlType :: "string \<Rightarrow> string option" where
  "ElementTypeToXmlType =
     map_of (map (\<lambda>(xml, elem). (elem, xml)) XmlTypeToElementType_entries)"

definition XmlTypeToRelationshipType_entries :: "(string \<times> string) list" where
  "XmlTypeToRelationshipType_entries =
     map (\<lambda>t. (''archimate:'' @ t @ ''Relationship'', t)) RelationshipTypes"

definition XmlTypeToRelationshipType :: "string \<Rightarrow> string option" where
  "XmlTypeToRelationshipType = map_of XmlTypeToRelationshipType_entries"

definition RelationshipTypeToXmlType :: "string \<Rightarrow> string option" where
  "RelationshipTypeToXmlType =
     map_of (map (\<lambda>(xml, rel). (rel, xml)) XmlTypeToRelationshipType_entries)"

section \<open>Hierarchical reader (model/parser)\<close>

definition parseProperties :: "XmlProperty list \<Rightarrow> ArchiMateProperty list" where
  "parseProperties props = map (\<lambda>p. \<lparr>p_key = xp_key p, p_value = xp_value p\<rparr>) props"

definition boundsAttribute ::
  "XmlBounds option \<Rightarrow> (XmlBounds \<Rightarrow> string option) \<Rightarrow> string option" where
  "boundsAttribute bounds field = (case bounds of None \<Rightarrow> None | Some b \<Rightarrow> field b)"

definition parseBounds :: "XmlBounds option \<Rightarrow> DiagramBounds" where
  "parseBounds bounds =
     \<lparr>b_x = parseInt (orElse (boundsAttribute bounds xb_x) ''0''),
      b_y = parseInt (orElse (boundsAttribute bounds xb_y) ''0''),
      b_width = parseInt (orElse (boundsAttribute bounds xb_width) ''120''),
      b_height = parseInt (orElse (boundsAttribute bounds xb_height) ''55'')\<rparr>"

definition parseConnections :: "XmlConnection list \<Rightarrow> DiagramConnection list" where
  "parseConnections conns =
     map (\<lambda>c.
            \<lparr>c_id = xc_id c,
             c_sourceId = xc_source c,
             c_targetId = xc_target c,
             c_relationshipId = orElse (xc_archimateRelationship c) [],
             c_bendpoints =
               Some (map (\<lambda>bp. \<lparr>bp_x = parseInt (orElse (xbp_x bp) ''0''),
                                   bp_y = parseInt (orElse (xbp_y bp) ''0'')\<rparr>)
                       (xc_bendpoint c))\<rparr>)
       conns"

text \<open>\<open>String.prototype.split\<close> on a one-character separator.\<close>

fun splitString :: "char \<Rightarrow> string \<Rightarrow> string list" where
  "splitString sep [] = [[]]"
| "splitString sep (c # cs) =
     (if c = sep then [] # splitString sep cs
      else (case splitString sep cs of w # ws \<Rightarrow> (c # w) # ws | [] \<Rightarrow> [[c]]))"

fun parseDiagramObject :: "XmlElement \<Rightarrow> DiagramObject" where
  "parseDiagramObject (XmlElement child children) =
     DiagramObject
       (orElse (xe_id child) [])
       (orElse (xe_archimateElement child) [])
       (parseBounds (xe_bounds child))
       (Some (parseConnections (xe_sourceConnection child)))
       (Some (if truthy (xe_targetConnections child)
              then splitString CHR '' '' (the (xe_targetConnections child)) else []))
       (Some (map parseDiagramObject children))"

definition parseDiagramObjects :: "XmlElement list \<Rightarrow> DiagramObject list" where
  "parseDiagramObjects children = map parseDiagramObject children"

definition parseElement :: "XmlElement \<Rightarrow> ArchiMateElement option" where
  "parseElement elem =
     (let xsiType = xe_xsi_type (xe_fields elem)
      in if \<not> truthy xsiType then None
         else (case XmlTypeToElementType (the xsiType) of
                 None \<Rightarrow> None
               | Some elementType \<Rightarrow>
                   Some \<lparr>e_id = orElse (xe_id (xe_fields elem)) [],
                         e_type = elementType,
                         e_name = orElse (xe_name (xe_fields elem)) [],
                         e_documentation = xe_documentation (xe_fields elem),
                         e_properties = Some (parseProperties (xe_property (xe_fields elem)))\<rparr>))"

definition accessMap :: "string \<Rightarrow> AccessType option" where
  "accessMap =
     map_of [(''1'', Read), (''2'', Write), (''3'', ReadWrite),
             (''read'', Read), (''write'', Write), (''readWrite'', ReadWrite)]"

definition parseRelationship :: "XmlElement \<Rightarrow> ArchiMateRelationship option" where
  "parseRelationship elem =
     (let xsiType = xe_xsi_type (xe_fields elem)
      in if \<not> truthy xsiType then None
         else (case XmlTypeToRelationshipType (the xsiType) of
                 None \<Rightarrow> None
               | Some relType \<Rightarrow>
                   (let rel =
                          \<lparr>r_id = orElse (xe_id (xe_fields elem)) [],
                           r_type = relType,
                           r_sourceId = orElse (xe_source (xe_fields elem)) [],
                           r_targetId = orElse (xe_target (xe_fields elem)) [],
                           r_name = xe_name (xe_fields elem),
                           r_documentation = xe_documentation (xe_fields elem),
                           r_accessType = None,
                           r_influenceModifier = None,
                           r_properties =
                             Some (parseProperties (xe_property (xe_fields elem)))\<rparr>;
                        rel1 =
                          (if relType = ''Access'' \<and> truthy (xe_accessType (xe_fields elem))
                           then rel\<lparr>r_accessType :=
                                  accessMap (the (xe_accessType (xe_fields elem)))\<rparr>
                           else rel);
                        rel2 =
                          (if relType = ''Influence'' \<and> truthy (xe_modifier (xe_fields elem))
                           then rel1\<lparr>r_influenceModifier := xe_modifier (xe_fields elem)\<rparr>
                           else rel1)
                    in Some rel2)))"

definition parseDiagram :: "XmlElement \<Rightarrow> ArchiMateDiagram option" where
  "parseDiagram elem =
     (if xe_xsi_type (xe_fields elem) \<noteq> Some ''archimate:ArchimateDiagramModel'' then None
      else Some \<lparr>d_id = orElse (xe_id (xe_fields elem)) [],
                 d_name = orElse (xe_name (xe_fields elem)) [],
                 d_viewpoint = None,
                 d_documentation = xe_documentation (xe_fields elem),
                 d_objects = parseDiagramObjects (xe_child elem)\<rparr>)"

text \<open>
  \<open>processFolder\<close> is the local function of \<open>parseModelComplete\<close>. It pushes the
  relationships and the diagrams it meets onto the model under construction, which is
  threaded through here, and returns the folder. Elements come first, subfolders next.
\<close>

definition processElement ::
  "XmlElement \<Rightarrow> ArchiMateElement list \<times> ArchiMateModel \<Rightarrow>
   ArchiMateElement list \<times> ArchiMateModel" where
  "processElement elem acc =
     (let (elements, model) = acc;
          xsiType = xe_xsi_type (xe_fields elem)
      in if truthy xsiType \<and> XmlTypeToRelationshipType (the xsiType) \<noteq> None then
           (case parseRelationship elem of
              Some rel \<Rightarrow> (elements, model\<lparr>m_relationships := m_relationships model @ [rel]\<rparr>)
            | None \<Rightarrow> (elements, model))
         else if xsiType = Some ''archimate:ArchimateDiagramModel'' then
           (case parseDiagram elem of
              Some diagram \<Rightarrow> (elements, model\<lparr>m_diagrams := m_diagrams model @ [diagram]\<rparr>)
            | None \<Rightarrow> (elements, model))
         else
           (case parseElement elem of
              Some element \<Rightarrow> (elements @ [element], model)
            | None \<Rightarrow> (elements, model)))"

fun processFolder :: "XmlFolder \<Rightarrow> ArchiMateModel \<Rightarrow> ArchiMateFolder \<times> ArchiMateModel"
  and processFolders :: "XmlFolder list \<Rightarrow> ArchiMateModel \<Rightarrow> ArchiMateFolder list \<times> ArchiMateModel"
  where
  "processFolder (XmlFolder name ident type elements subs) model =
     (let (es, model1) = foldl (\<lambda>acc elem. processElement elem acc) ([], model) elements;
          (subfolders, model2) = processFolders subs model1
      in (ArchiMateFolder ident name (orElse type []) es subfolders, model2))"
| "processFolders [] model = ([], model)"
| "processFolders (sub # subs) model =
     (let (folder, model1) = processFolder sub model;
          (folders, model2) = processFolders subs model1
      in (folder # folders, model2))"

text \<open>
  The part of \<open>parseModelComplete\<close> that follows the check of the root element: the
  model is created from the attributes of the root, then every top-level folder is
  processed and pushed.
\<close>

definition modelOfRoot :: "XmlModel \<Rightarrow> ArchiMateModel" where
  "modelOfRoot xmlModel =
     \<lparr>m_id = xm_id xmlModel,
      m_name = xm_name xmlModel,
      m_version = orElse (xm_version xmlModel) ''5.0.0'',
      m_documentation = xm_documentation xmlModel,
      m_folders = [],
      m_relationships = [],
      m_diagrams = []\<rparr>"

definition parseModelComplete_root :: "XmlModel \<Rightarrow> ArchiMateModel" where
  "parseModelComplete_root xmlModel =
     foldl (\<lambda>model xmlFolder.
              (let (folder, model1) = processFolder xmlFolder model
               in model1\<lparr>m_folders := m_folders model1 @ [folder]\<rparr>))
       (modelOfRoot xmlModel) (xm_folder xmlModel)"

text \<open>
  The first parser, \<open>parseModel\<close>: \<open>parseFolder\<close> keeps the elements only,
  \<open>extractRelationships\<close> has an empty body, \<open>extractDiagrams\<close> collects the diagrams
  of a folder tagged \<open>diagrams\<close> and of its subfolders.
\<close>

fun parseFolder :: "XmlFolder \<Rightarrow> ArchiMateFolder" where
  "parseFolder (XmlFolder name ident type elements subs) =
     ArchiMateFolder ident name (orElse type [])
       (List.map_filter parseElement elements)
       (map parseFolder subs)"

fun extractDiagrams :: "XmlFolder \<Rightarrow> ArchiMateDiagram list" where
  "extractDiagrams (XmlFolder name ident type elements subs) =
     List.map_filter parseDiagram elements @ concat (map extractDiagrams subs)"

definition extractRelationships ::
  "ArchiMateFolder \<Rightarrow> ArchiMateRelationship list \<Rightarrow> ArchiMateRelationship list" where
  "extractRelationships folder relationships = relationships"

definition parseModel_root :: "XmlModel \<Rightarrow> ArchiMateModel" where
  "parseModel_root xmlModel =
     foldl (\<lambda>model xmlFolder.
              (let folder = parseFolder xmlFolder;
                   model1 = model\<lparr>m_folders := m_folders model @ [folder]\<rparr>;
                   model2 =
                     (if f_type folder = ''relations''
                      then model1\<lparr>m_relationships :=
                             extractRelationships folder (m_relationships model1)\<rparr>
                      else model1)
               in if f_type folder = ''diagrams''
                  then model2\<lparr>m_diagrams := m_diagrams model2 @ extractDiagrams xmlFolder\<rparr>
                  else model2))
       (modelOfRoot xmlModel) (xm_folder xmlModel)"

text \<open>
  What lies outside the program: the file system and the XML parser. \<open>existsSync\<close>
  answers for a path, \<open>readFile\<close> yields the text of a file or rejects, \<open>xmlParse\<close>
  yields what the parsed document holds under the key \<open>archimate:model\<close> or throws, and
  \<open>join\<close> is the path function of the platform. For an element with neither attribute
  nor content the parser yields the empty string, which is falsy.
\<close>

datatype ParsedRoot = RootUndefined | RootEmptyString | RootObject XmlModel

record Environment =
  existsSync :: "string \<Rightarrow> bool"
  readFile :: "string \<Rightarrow> error + string"
  xmlParse :: "string \<Rightarrow> error + ParsedRoot"
  join :: "string \<Rightarrow> string \<Rightarrow> string"

definition MODEL_FILENAME :: string where
  "MODEL_FILENAME = ''model.archimate''"

definition endsWith :: "string \<Rightarrow> string \<Rightarrow> bool" where
  "endsWith s suffix =
     (length suffix \<le> length s \<and> drop (length s - length suffix) s = suffix)"

definition modelFilePath :: "Environment \<Rightarrow> string \<Rightarrow> string" where
  "modelFilePath env modelPath =
     (if \<not> endsWith modelPath ''.archimate'' then join env modelPath MODEL_FILENAME
      else modelPath)"

definition readRoot :: "Environment \<Rightarrow> string \<Rightarrow> error + XmlModel" where
  "readRoot env modelPath =
     (let filePath = modelFilePath env modelPath
      in if \<not> existsSync env filePath then Inl (ModelFileNotFound filePath)
         else (case readFile env filePath of
                 Inl e \<Rightarrow> Inl e
               | Inr xmlContent \<Rightarrow>
                   (case xmlParse env xmlContent of
                      Inl e \<Rightarrow> Inl e
                    | Inr RootUndefined \<Rightarrow> Inl MissingRootElement
                    | Inr RootEmptyString \<Rightarrow> Inl MissingRootElement
                    | Inr (RootObject xmlModel) \<Rightarrow> Inr xmlModel)))"

definition parseModel :: "Environment \<Rightarrow> string \<Rightarrow> error + ArchiMateModel" where
  "parseModel env modelPath =
     (case readRoot env modelPath of
        Inl e \<Rightarrow> Inl e
      | Inr xmlModel \<Rightarrow> Inr (parseModel_root xmlModel))"

definition parseModelComplete :: "Environment \<Rightarrow> string \<Rightarrow> error + ArchiMateModel" where
  "parseModelComplete env modelPath =
     (case readRoot env modelPath of
        Inl e \<Rightarrow> Inl e
      | Inr xmlModel \<Rightarrow> Inr (parseModelComplete_root xmlModel))"

section \<open>Hierarchical writer (model/writer)\<close>

definition buildProperties :: "ArchiMateProperty list option \<Rightarrow> XmlProperty list" where
  "buildProperties props =
     (case props of
        None \<Rightarrow> []
      | Some ps \<Rightarrow> map (\<lambda>p. \<lparr>xp_key = p_key p, xp_value = p_value p\<rparr>) ps)"

definition buildElement :: "ArchiMateElement \<Rightarrow> XmlElement" where
  "buildElement element =
     (let obj = emptyFields
            \<lparr>xe_xsi_type := ElementTypeToXmlType (e_type element),
             xe_name := Some (e_name element),
             xe_id := Some (e_id element)\<rparr>;
          obj1 = (if truthy (e_documentation element)
                  then obj\<lparr>xe_documentation := e_documentation element\<rparr> else obj);
          props = buildProperties (e_properties element);
          obj2 = (if length props > 0 then obj1\<lparr>xe_property := props\<rparr> else obj1)
      in XmlElement obj2 [])"

fun accessCode :: "AccessType \<Rightarrow> string" where
  "accessCode Read = ''1''"
| "accessCode Write = ''2''"
| "accessCode ReadWrite = ''3''"

definition buildRelationship :: "ArchiMateRelationship \<Rightarrow> XmlElement" where
  "buildRelationship rel =
     (let obj = emptyFields
            \<lparr>xe_xsi_type := RelationshipTypeToXmlType (r_type rel),
             xe_id := Some (r_id rel),
             xe_source := Some (r_sourceId rel),
             xe_target := Some (r_targetId rel)\<rparr>;
          obj1 = (if truthy (r_name rel) then obj\<lparr>xe_name := r_name rel\<rparr> else obj);
          obj2 = (if truthy (r_documentation rel)
                  then obj1\<lparr>xe_documentation := r_documentation rel\<rparr> else obj1);
          obj3 = (if r_type rel = ''Access'' \<and> r_accessType rel \<noteq> None
                  then obj2\<lparr>xe_accessType := Some (accessCode (the (r_accessType rel)))\<rparr>
                  else obj2);
          obj4 = (if r_type rel = ''Influence'' \<and> truthy (r_influenceModifier rel)
                  then obj3\<lparr>xe_modifier := r_influenceModifier rel\<rparr> else obj3);
          props = buildProperties (r_properties rel);
          obj5 = (if length props > 0 then obj4\<lparr>xe_property := props\<rparr> else obj4)
      in XmlElement obj5 [])"

definition buildConnection :: "DiagramConnection \<Rightarrow> XmlConnection" where
  "buildConnection conn =
     \<lparr>xc_xsi_type = Some ''archimate:Connection'',
      xc_id = c_id conn,
      xc_source = c_sourceId conn,
      xc_target = c_targetId conn,
      xc_archimateRelationship =
        (if c_relationshipId conn \<noteq> [] then Some (c_relationshipId conn) else None),
      xc_bendpoint =
        (case c_bendpoints conn of
           None \<Rightarrow> []
         | Some bps \<Rightarrow>
             map (\<lambda>bp. \<lparr>xbp_x = Some (numberToString (bp_x bp)),
                         xbp_y = Some (numberToString (bp_y bp))\<rparr>) bps)\<rparr>"

text \<open>\<open>Array.prototype.join\<close> with a separator.\<close>

fun joinStrings :: "string \<Rightarrow> string list \<Rightarrow> string" where
  "joinStrings sep [] = []"
| "joinStrings sep [s] = s"
| "joinStrings sep (s # t # rest) = s @ sep @ joinStrings sep (t # rest)"

fun buildDiagramObject :: "DiagramObject \<Rightarrow> XmlElement" where
  "buildDiagramObject (DiagramObject ident elementId bounds sourceConnections
                         targetConnectionIds children) =
     (let obj = emptyFields
            \<lparr>xe_xsi_type := Some ''archimate:DiagramObject'', xe_id := Some ident\<rparr>;
          obj1 = (if elementId \<noteq> [] then obj\<lparr>xe_archimateElement := Some elementId\<rparr>
                  else obj);
          obj2 = (case targetConnectionIds of
                    None \<Rightarrow> obj1
                  | Some ids \<Rightarrow>
                      if length ids > 0
                      then obj1\<lparr>xe_targetConnections := Some (joinStrings '' '' ids)\<rparr>
                      else obj1);
          obj3 = obj2
            \<lparr>xe_bounds :=
               Some \<lparr>xb_x = Some (numberToString (b_x bounds)),
                     xb_y = Some (numberToString (b_y bounds)),
                     xb_width = Some (numberToString (b_width bounds)),
                     xb_height = Some (numberToString (b_height bounds))\<rparr>\<rparr>;
          obj4 = (case sourceConnections of
                    None \<Rightarrow> obj3
                  | Some conns \<Rightarrow> obj3\<lparr>xe_sourceConnection := map buildConnection conns\<rparr>)
      in XmlElement obj4
           (case children of None \<Rightarrow> [] | Some cs \<Rightarrow> map buildDiagramObject cs))"

definition buildDiagram :: "ArchiMateDiagram \<Rightarrow> XmlElement" where
  "buildDiagram diagram =
     (let obj = emptyFields
            \<lparr>xe_xsi_type := Some ''archimate:ArchimateDiagramModel'',
             xe_name := Some (d_name diagram),
             xe_id := Some (d_id diagram)\<rparr>;
          obj1 = (if truthy (d_documentation diagram)
                  then obj\<lparr>xe_documentation := d_documentation diagram\<rparr> else obj)
      in XmlElement obj1 (map buildDiagramObject (d_objects diagram)))"

fun buildFolder :: "ArchiMateFolder \<Rightarrow> XmlFolder" where
  "buildFolder (ArchiMateFolder ident name type elements subfolders) =
     XmlFolder name ident (if type \<noteq> [] then Some type else None)
       (map buildElement elements) (map buildFolder subfolders)"

text \<open>
  The tree that \<open>writeModel\<close> hands to the XML builder. A top-level folder tagged
  \<open>relations\<close> is written with the relationships of the model as its only content; one
  tagged \<open>diagrams\<close> with the diagrams of the model and with its own subfolders.
\<close>

definition writeFolder :: "ArchiMateModel \<Rightarrow> ArchiMateFolder \<Rightarrow> XmlFolder" where
  "writeFolder model folder =
     (if f_type folder = ''relations'' then
        XmlFolder (f_name folder) (f_id folder) (Some (f_type folder))
          (map buildRelationship (m_relationships model)) []
      else if f_type folder = ''diagrams'' then
        XmlFolder (f_name folder) (f_id folder) (Some (f_type folder))
          (map buildDiagram (m_diagrams model))
          (map buildFolder (f_subfolders folder))
      else buildFolder folder)"

definition writeModel_xmlObj :: "ArchiMateModel \<Rightarrow> XmlModel" where
  "writeModel_xmlObj model =
     \<lparr>xm_name = m_name model,
      xm_id = m_id model,
      xm_version = Some (m_version model),
      xm_documentation =
        (if truthy (m_documentation model) then m_documentation model else None),
      xm_folder = map (writeFolder model) (m_folders model)\<rparr>"

section \<open>Example inputs\<close>

text \<open>
  A model with one folder, two elements, one relationship and one diagram, in which the
  diagram object of element \<open>b\<close> is nested in the diagram object of element \<open>a\<close> and
  holds the only connection.
\<close>

definition nestedConnection :: DiagramConnection where
  "nestedConnection =
     \<lparr>c_id = ''c1'', c_sourceId = ''o2'', c_targetId = ''o1'', c_relationshipId = ''r1'',
      c_bendpoints = None\<rparr>"

definition nestedChild :: DiagramObject where
  "nestedChild =
     DiagramObject ''o2'' ''b''
       \<lparr>b_x = Num 10, b_y = Num 10, b_width = Num 120, b_height = Num 55\<rparr>
       (Some [nestedConnection]) None None"

definition nestedParent :: DiagramObject where
  "nestedParent =
     DiagramObject ''o1'' ''a''
       \<lparr>b_x = Num 0, b_y = Num 0, b_width = Num 300, b_height = Num 200\<rparr>
       None (Some [''c1'']) (Some [nestedChild])"

definition nestedModel :: ArchiMateModel where
  "nestedModel =
     \<lparr>m_id = ''m1'', m_name = ''Nested'', m_version = ''5.0.0'', m_documentation = None,
      m_folders =
        [ArchiMateFolder ''f1'' ''Business'' ''business''
           [\<lparr>e_id = ''a'', e_type = ''BusinessActor'', e_name = ''Actor'',
             e_documentation = None, e_properties = None\<rparr>,
            \<lparr>e_id = ''b'', e_type = ''BusinessRole'', e_name = ''Role'',
             e_documentation = None, e_properties = None\<rparr>] []],
      m_relationships =
        [\<lparr>r_id = ''r1'', r_type = ''Association'', r_sourceId = ''b'', r_targetId = ''a'',
          r_name = None, r_documentation = None, r_accessType = None,
          r_influenceModifier = None, r_properties = None\<rparr>],
      m_diagrams =
        [\<lparr>d_id = ''d1'', d_name = ''View'', d_viewpoint = None, d_documentation = None,
          d_objects = [nestedParent]\<rparr>]\<rparr>"

text \<open>An Access relationship of a model file, with a given \<open>accessType\<close> attribute.\<close>

definition accessElement :: "string \<Rightarrow> XmlElement" where
  "accessElement code =
     XmlElement
       (emptyFields
          \<lparr>xe_xsi_type := Some ''archimate:AccessRelationship'', xe_id := Some ''r1'',
           xe_source := Some ''p1'', xe_target := Some ''o1'', xe_accessType := Some code\<rparr>)
       []"

text \<open>
  Three environments: a file that holds an empty root element; a path that exists and
  cannot be read; a repository directory that holds one model file.
\<close>

definition emptyRootEnvironment :: Environment where
  "emptyRootEnvironment =
     \<lparr>existsSync = (\<lambda>path. True),
      readFile = (\<lambda>path. Inr ''<archimate:model/>''),
      xmlParse = (\<lambda>xmlContent. Inr RootEmptyString),
      join = (\<lambda>dir file. dir @ ''/'' @ file)\<rparr>"

definition unreadableEnvironment :: Environment where
  "unreadableEnvironment =
     \<lparr>existsSync = (\<lambda>path. True),
      readFile = (\<lambda>path. Inl ReadFileFailed),
      xmlParse = (\<lambda>xmlContent. Inr RootUndefined),
      join = (\<lambda>dir file. dir @ ''/'' @ file)\<rparr>"

definition repositoryEnvironment :: Environment where
  "repositoryEnvironment =
     \<lparr>existsSync = (\<lambda>path. path = ''repo/model.archimate''),
      readFile = (\<lambda>path. Inr ''<archimate:model name=Nested id=m1/>''),
      xmlParse = (\<lambda>xmlContent. Inr (RootObject (writeModel_xmlObj nestedModel))),
      join = (\<lambda>dir file. dir @ ''/'' @ file)\<rparr>"

section \<open>The file that \<open>writeModel\<close> writes\<close>

text \<open>
  \<open>writeModel\<close> resolves the path as the readers do, hands its tree to
  \<open>XMLBuilder.build\<close> and writes the text to the file. The builder belongs to the XML
  library and is a parameter here, together with the path function of the platform; the
  XML declaration and the namespace attributes of the root, which are the same for every
  model, are left to it. The result is the path and the content of the file written.
\<close>

definition writeModel ::
  "(XmlModel \<Rightarrow> string) \<Rightarrow> (string \<Rightarrow> string \<Rightarrow> string) \<Rightarrow> ArchiMateModel \<Rightarrow> string \<Rightarrow>
   string \<times> string" where
  "writeModel build joinPath model outputPath =
     (let filePath = (if endsWith outputPath ''.archimate'' then outputPath
                      else joinPath outputPath MODEL_FILENAME);
          xmlContent = build (writeModel_xmlObj model)
      in (filePath, xmlContent))"

section \<open>The object tree of the exchange format (exchange/exchange-writer, exchange-reader)\<close>

text \<open>
  As for the hierarchical format, the writer of the exchange format builds an object tree
  for the XML library and the reader receives one from it. The reader configures its
  parser with \<open>parseAttributeValue: true\<close> and \<open>trimValues: true\<close>, so the value of an
  attribute or of a text reaches it as a string, a number or a boolean; its nodes have
  the type \<open>Record<string, unknown>\<close>, and it coerces what it finds with \<open>String\<close> and
  \<open>Number\<close>. In the records below an identifier, a reference or a type name is such a
  value; a coordinate is a number, which is what the writer sets and what the parser
  delivers for numeric text; a name or a documentation is either a bare value or an
  object with a language tag and, possibly, a text. The three containers of the model
  are lists, which is what \<open>ensureArray\<close> makes of them, and hold the entries that are
  objects.
\<close>

datatype jsValue = JString string | JNumber number | JBoolean bool

datatype textValue = TextPlain jsValue | TextObject string "jsValue option"

record FlatElement =
  fe_identifier :: "jsValue option"
  fe_xsi_type :: "jsValue option"
  fe_type :: "jsValue option"
  fe_name :: "textValue option"
  fe_documentation :: "textValue option"

record FlatRelationship =
  fr_identifier :: "jsValue option"
  fr_xsi_type :: "jsValue option"
  fr_type :: "jsValue option"
  fr_source :: "jsValue option"
  fr_target :: "jsValue option"
  fr_name :: "textValue option"
  fr_documentation :: "textValue option"

record FlatNode =
  fn_identifier :: "jsValue option"
  fn_elementRef :: "jsValue option"
  fn_x :: "number option"
  fn_y :: "number option"
  fn_w :: "number option"
  fn_h :: "number option"

record FlatConnection =
  fc_identifier :: "jsValue option"
  fc_relationshipRef :: "jsValue option"
  fc_source :: "jsValue option"
  fc_target :: "jsValue option"

record FlatView =
  fv_identifier :: "jsValue option"
  fv_viewpoint :: "jsValue option"
  fv_name :: "textValue option"
  fv_documentation :: "textValue option"
  fv_node :: "FlatNode list"
  fv_connection :: "FlatConnection list"

record FlatModel =
  fm_identifier :: "jsValue option"
  fm_name :: "textValue option"
  fm_documentation :: "textValue option"
  fm_element :: "FlatElement list"
  fm_relationship :: "FlatRelationship list"
  fm_view :: "FlatView list"

text \<open>
  What the parser returns for a document: the object under the key \<open>model\<close> and the one
  under \<open>archimate:model\<close>, each absent when the key is missing or holds a falsy value.
\<close>

record ParsedDocument =
  pd_model :: "FlatModel option"
  pd_archimate_model :: "FlatModel option"

text \<open>
  Truthiness of a value that may be absent: \<open>undefined\<close>, the empty string, zero, \<open>NaN\<close>
  and \<open>false\<close> are falsy. \<open>String(v)\<close> on a value, and \<open>String(v || '')\<close>.
\<close>

definition jsTruthy :: "jsValue option \<Rightarrow> bool" where
  "jsTruthy v =
     (case v of
        None \<Rightarrow> False
      | Some (JString s) \<Rightarrow> s \<noteq> []
      | Some (JNumber n) \<Rightarrow> (case n of NaN \<Rightarrow> False | Num i \<Rightarrow> i \<noteq> 0)
      | Some (JBoolean b) \<Rightarrow> b)"

definition jsString :: "jsValue \<Rightarrow> string" where
  "jsString v =
     (case v of
        JString s \<Rightarrow> s
      | JNumber n \<Rightarrow> numberToString n
      | JBoolean b \<Rightarrow> if b then ''true'' else ''false'')"

definition stringOrEmpty :: "jsValue option \<Rightarrow> string" where
  "stringOrEmpty v = (if jsTruthy v then jsString (the v) else [])"

text \<open>
  \<open>getText\<close>: the empty string for a falsy value, a string as it is, the text of an
  object that has the key \<open>#text\<close>, printed by \<open>String\<close>, the printed form of an object
  without that key, and the printed form of any other value.
  \<open>orUndefined\<close> is \<open>s || undefined\<close> on a string.
\<close>

definition getText :: "textValue option \<Rightarrow> string" where
  "getText v =
     (case v of
        None \<Rightarrow> []
      | Some (TextPlain p) \<Rightarrow> if jsTruthy (Some p) then jsString p else []
      | Some (TextObject lang text) \<Rightarrow>
          (case text of Some t \<Rightarrow> jsString t | None \<Rightarrow> ''[object Object]''))"

definition orUndefined :: "string \<Rightarrow> string option" where
  "orUndefined s = (if s = [] then None else Some s)"

definition mapElementType :: "string \<Rightarrow> string option" where
  "mapElementType exchangeType =
     (if exchangeType \<in> set AllElementTypes then Some exchangeType else None)"

text \<open>\<open>exchangeType.replace(/Relationship$/, '')\<close>.\<close>

definition stripRelationshipSuffix :: "string \<Rightarrow> string" where
  "stripRelationshipSuffix s =
     (if endsWith s ''Relationship'' then take (length s - length ''Relationship'') s else s)"

definition mapRelationshipType :: "string \<Rightarrow> string option" where
  "mapRelationshipType exchangeType =
     (let t = stripRelationshipSuffix exchangeType
      in if t \<in> set RelationshipTypes then Some t else None)"

definition createFolderStructure :: "ArchiMateFolder list" where
  "createFolderStructure =
     [ArchiMateFolder ''folder-motivation'' ''Motivation'' ''motivation'' [] [],
      ArchiMateFolder ''folder-strategy'' ''Strategy'' ''strategy'' [] [],
      ArchiMateFolder ''folder-business'' ''Business'' ''business'' [] [],
      ArchiMateFolder ''folder-application'' ''Application'' ''application'' [] [],
      ArchiMateFolder ''folder-technology'' ''Technology & Physical'' ''technology'' [] [],
      ArchiMateFolder ''folder-implementation'' ''Implementation & Migration''
        ''implementation_migration'' [] [],
      ArchiMateFolder ''folder-other'' ''Other'' ''other'' [] [],
      ArchiMateFolder ''folder-relations'' ''Relations'' ''relations'' [] [],
      ArchiMateFolder ''folder-diagrams'' ''Views'' ''diagrams'' [] []]"

fun LayerFolderTypes :: "Layer \<Rightarrow> string" where
  "LayerFolderTypes Motivation = ''motivation''"
| "LayerFolderTypes Strategy = ''strategy''"
| "LayerFolderTypes Business = ''business''"
| "LayerFolderTypes Application = ''application''"
| "LayerFolderTypes Technology = ''technology''"
| "LayerFolderTypes Physical = ''technology''"
| "LayerFolderTypes Implementation = ''implementation_migration''"
| "LayerFolderTypes Composite = ''other''"

text \<open>
  \<open>getFolderForType\<close> finds the first folder tagged with the folder type of the layer of
  the kind, or else the first folder tagged \<open>other\<close>; the caller pushes the element onto
  it. \<open>pushToFirst\<close> does both for one tag and fails when no folder has the tag. With no
  folder found the push would be on \<open>undefined\<close>, which throws.
\<close>

fun pushToFirst ::
  "string \<Rightarrow> ArchiMateElement \<Rightarrow> ArchiMateFolder list \<Rightarrow> ArchiMateFolder list option" where
  "pushToFirst folderType element [] = None"
| "pushToFirst folderType element (ArchiMateFolder i n t es subs # folders) =
     (if t = folderType then Some (ArchiMateFolder i n t (es @ [element]) subs # folders)
      else map_option (\<lambda>rest. ArchiMateFolder i n t es subs # rest)
             (pushToFirst folderType element folders))"

definition pushToFolderForType ::
  "ArchiMateFolder list \<Rightarrow> ArchiMateElement \<Rightarrow> error + ArchiMateFolder list" where
  "pushToFolderForType folders element =
     (case getLayerForElementType (e_type element) of
        Inl e \<Rightarrow> Inl e
      | Inr layer \<Rightarrow>
          (case pushToFirst (LayerFolderTypes layer) element folders of
             Some folders1 \<Rightarrow> Inr folders1
           | None \<Rightarrow>
               (case pushToFirst ''other'' element folders of
                  Some folders1 \<Rightarrow> Inr folders1
                | None \<Rightarrow> Inl UndefinedFolder)))"

text \<open>
  \<open>Number(v) || d\<close> on a coordinate, which holds a number or is absent: the default
  stands in for an absent coordinate, for \<open>NaN\<close> and for zero.
\<close>

definition numberOr :: "number option \<Rightarrow> int \<Rightarrow> number" where
  "numberOr v d =
     (case v of
        None \<Rightarrow> Num d
      | Some NaN \<Rightarrow> Num d
      | Some (Num n) \<Rightarrow> if n = 0 then Num d else Num n)"

text \<open>The type attribute of an element or a relationship: \<open>String(a || b || '')\<close>.\<close>

definition typeAttribute :: "jsValue option \<Rightarrow> jsValue option \<Rightarrow> string" where
  "typeAttribute a b = stringOrEmpty (if jsTruthy a then a else b)"

definition exchange_parseElement :: "FlatElement \<Rightarrow> ArchiMateElement option" where
  "exchange_parseElement elementNode =
     (let ident = stringOrEmpty (fe_identifier elementNode);
          typeAttr = typeAttribute (fe_xsi_type elementNode) (fe_type elementNode)
      in case mapElementType typeAttr of
           None \<Rightarrow> None
         | Some elementType \<Rightarrow>
             Some \<lparr>e_id = ident,
                   e_type = elementType,
                   e_name = getText (fe_name elementNode),
                   e_documentation = orUndefined (getText (fe_documentation elementNode)),
                   e_properties = Some []\<rparr>)"

definition exchange_parseRelationship :: "FlatRelationship \<Rightarrow> ArchiMateRelationship option" where
  "exchange_parseRelationship relNode =
     (let ident = stringOrEmpty (fr_identifier relNode);
          typeAttr = typeAttribute (fr_xsi_type relNode) (fr_type relNode)
      in case mapRelationshipType typeAttr of
           None \<Rightarrow> None
         | Some relType \<Rightarrow>
             Some \<lparr>r_id = ident,
                   r_type = relType,
                   r_sourceId = stringOrEmpty (fr_source relNode),
                   r_targetId = stringOrEmpty (fr_target relNode),
                   r_name = orUndefined (getText (fr_name relNode)),
                   r_documentation = orUndefined (getText (fr_documentation relNode)),
                   r_accessType = None,
                   r_influenceModifier = None,
                   r_properties = Some []\<rparr>)"

definition exchange_parseDiagramObject :: "FlatNode \<Rightarrow> DiagramObject" where
  "exchange_parseDiagramObject nodeData =
     DiagramObject
       (stringOrEmpty (fn_identifier nodeData))
       (stringOrEmpty (fn_elementRef nodeData))
       \<lparr>b_x = numberOr (fn_x nodeData) 0,
        b_y = numberOr (fn_y nodeData) 0,
        b_width = numberOr (fn_w nodeData) 120,
        b_height = numberOr (fn_h nodeData) 55\<rparr>
       (Some []) None (Some [])"

definition exchange_parseConnection :: "FlatConnection \<Rightarrow> DiagramConnection" where
  "exchange_parseConnection connData =
     \<lparr>c_id = stringOrEmpty (fc_identifier connData),
      c_sourceId = stringOrEmpty (fc_source connData),
      c_targetId = stringOrEmpty (fc_target connData),
      c_relationshipId = stringOrEmpty (fc_relationshipRef connData),
      c_bendpoints = None\<rparr>"

text \<open>
  \<open>parseDiagram\<close> gathers the connections by source id, in order, and gives every node
  the connections gathered under its own id.
\<close>

fun assignConnections :: "DiagramConnection list \<Rightarrow> DiagramObject \<Rightarrow> DiagramObject" where
  "assignConnections conns (DiagramObject i e b sc tc ch) =
     DiagramObject i e b (Some (filter (\<lambda>c. c_sourceId c = i) conns)) tc ch"

definition exchange_parseDiagram :: "FlatView \<Rightarrow> ArchiMateDiagram" where
  "exchange_parseDiagram viewData =
     (let objects = map exchange_parseDiagramObject (fv_node viewData);
          conns = map exchange_parseConnection (fv_connection viewData)
      in \<lparr>d_id = stringOrEmpty (fv_identifier viewData),
          d_name = getText (fv_name viewData),
          d_viewpoint = orUndefined (stringOrEmpty (fv_viewpoint viewData)),
          d_documentation = orUndefined (getText (fv_documentation viewData)),
          d_objects = map (assignConnections conns) objects\<rparr>)"

text \<open>
  The element loop of \<open>parseExchangeFormat\<close>, then the function from the object under the
  key \<open>model\<close> on, then the function itself, with \<open>XMLParser.parse\<close> under the options
  of the reader as a parameter. An object without any key stands in for a missing root.
\<close>

fun placeElements ::
  "FlatElement list \<Rightarrow> ArchiMateFolder list \<Rightarrow> error + ArchiMateFolder list" where
  "placeElements [] folders = Inr folders"
| "placeElements (elemData # rest) folders =
     (case exchange_parseElement elemData of
        None \<Rightarrow> placeElements rest folders
      | Some element \<Rightarrow>
          (case pushToFolderForType folders element of
             Inl e \<Rightarrow> Inl e
           | Inr folders1 \<Rightarrow> placeElements rest folders1))"

definition parseExchangeFormat_root :: "FlatModel \<Rightarrow> error + ArchiMateModel" where
  "parseExchangeFormat_root modelData =
     (let ident = (if jsTruthy (fm_identifier modelData)
                   then jsString (the (fm_identifier modelData)) else ''model-1'');
          name = (let n = getText (fm_name modelData) in if n = [] then ''Imported Model'' else n);
          documentation = orUndefined (getText (fm_documentation modelData))
      in case placeElements (fm_element modelData) createFolderStructure of
           Inl e \<Rightarrow> Inl e
         | Inr folders \<Rightarrow>
             Inr \<lparr>m_id = ident,
                   m_name = name,
                   m_version = ''5.0.0'',
                   m_documentation = documentation,
                   m_folders = folders,
                   m_relationships =
                     List.map_filter exchange_parseRelationship (fm_relationship modelData),
                   m_diagrams = map exchange_parseDiagram (fm_view modelData)\<rparr>)"

definition emptyObject :: FlatModel where
  "emptyObject =
     \<lparr>fm_identifier = None, fm_name = None, fm_documentation = None, fm_element = [],
      fm_relationship = [], fm_view = []\<rparr>"

definition parseExchangeFormat ::
  "(string \<Rightarrow> error + ParsedDocument) \<Rightarrow> string \<Rightarrow> error + ArchiMateModel" where
  "parseExchangeFormat parse xmlContent =
     (case parse xmlContent of
        Inl e \<Rightarrow> Inl e
      | Inr parsed \<Rightarrow>
          parseExchangeFormat_root
            (case pd_model parsed of
               Some modelData \<Rightarrow> modelData
             | None \<Rightarrow>
                 (case pd_archimate_model parsed of
                    Some modelData \<Rightarrow> modelData
                  | None \<Rightarrow> emptyObject)))"

text \<open>The writer: a localized text is tagged \<open>en\<close>.\<close>

definition english :: "string \<Rightarrow> textValue" where
  "english s = TextObject ''en'' (Some (JString s))"

definition exchange_buildElement :: "ArchiMateElement \<Rightarrow> FlatElement" where
  "exchange_buildElement element =
     \<lparr>fe_identifier = Some (JString (e_id element)),
      fe_xsi_type = Some (JString (e_type element)),
      fe_type = None,
      fe_name = Some (english (e_name element)),
      fe_documentation =
        (if truthy (e_documentation element)
         then Some (english (the (e_documentation element))) else None)\<rparr>"

definition exchange_buildRelationship :: "ArchiMateRelationship \<Rightarrow> FlatRelationship" where
  "exchange_buildRelationship rel =
     \<lparr>fr_identifier = Some (JString (r_id rel)),
      fr_xsi_type = Some (JString (r_type rel)),
      fr_type = None,
      fr_source = Some (JString (r_sourceId rel)),
      fr_target = Some (JString (r_targetId rel)),
      fr_name = (if truthy (r_name rel) then Some (english (the (r_name rel))) else None),
      fr_documentation =
        (if truthy (r_documentation rel)
         then Some (english (the (r_documentation rel))) else None)\<rparr>"

definition buildDiagramNode :: "DiagramObject \<Rightarrow> FlatNode" where
  "buildDiagramNode obj =
     \<lparr>fn_identifier = Some (JString (o_id obj)),
      fn_elementRef = Some (JString (o_elementId obj)),
      fn_x = Some (b_x (o_bounds obj)),
      fn_y = Some (b_y (o_bounds obj)),
      fn_w = Some (b_width (o_bounds obj)),
      fn_h = Some (b_height (o_bounds obj))\<rparr>"

definition exchange_buildConnection :: "DiagramConnection \<Rightarrow> FlatConnection" where
  "exchange_buildConnection conn =
     \<lparr>fc_identifier = Some (JString (c_id conn)),
      fc_relationshipRef = Some (JString (c_relationshipId conn)),
      fc_source = Some (JString (c_sourceId conn)),
      fc_target = Some (JString (c_targetId conn))\<rparr>"

text \<open>
  \<open>collectObjects\<close> of \<open>buildView\<close> pushes a node for each diagram object, parents
  first, and the connections of each object as it meets it.
\<close>

definition buildView :: "ArchiMateDiagram \<Rightarrow> FlatView" where
  "buildView diagram =
     \<lparr>fv_identifier = Some (JString (d_id diagram)),
      fv_viewpoint =
        (if truthy (d_viewpoint diagram) then Some (JString (the (d_viewpoint diagram)))
         else None),
      fv_name = Some (english (d_name diagram)),
      fv_documentation =
        (if truthy (d_documentation diagram)
         then Some (english (the (d_documentation diagram))) else None),
      fv_node = map buildDiagramNode (collectObjects (d_objects diagram)),
      fv_connection =
        map exchange_buildConnection
          (concat (map connectionsOf (collectObjects (d_objects diagram))))\<rparr>"

text \<open>
  The object that \<open>writeExchangeFormat\<close> hands to \<open>XMLBuilder.build\<close>, without the three
  namespace attributes, which are constants; then the function itself, with the builder
  as a parameter: the XML declaration, a line feed and the text of the builder.
\<close>

definition writeExchangeFormat_obj :: "ArchiMateModel \<Rightarrow> FlatModel" where
  "writeExchangeFormat_obj model =
     \<lparr>fm_identifier = Some (JString (m_id model)),
      fm_name = Some (english (m_name model)),
      fm_documentation =
        (if truthy (m_documentation model)
         then Some (english (the (m_documentation model))) else None),
      fm_element = map exchange_buildElement (getAllElements model),
      fm_relationship = map exchange_buildRelationship (m_relationships model),
      fm_view = map buildView (m_diagrams model)\<rparr>"

definition xmlDeclaration :: string where
  \<open>xmlDeclaration = ''<?xml version="1.0" encoding="UTF-8"?>'' @ [CHR 0x0A]\<close>

definition writeExchangeFormat :: "(FlatModel \<Rightarrow> string) \<Rightarrow> ArchiMateModel \<Rightarrow> string" where
  "writeExchangeFormat build model = xmlDeclaration @ build (writeExchangeFormat_obj model)"

section \<open>A diagram object of no extent\<close>

text \<open>
  A model with one element and one diagram, whose only diagram object has width and
  height zero; the tree that the writer of the exchange format builds for it, which is
  also what the parser of the reader returns for the text of that tree: the identifiers
  are read as the strings they are and the attributes \<open>x\<close>, \<open>y\<close>, \<open>w\<close>, \<open>h\<close>, written
  \<open>10\<close>, \<open>20\<close>, \<open>0\<close>, \<open>0\<close>, as numbers; and the bounds element that the hierarchical
  writer builds for the same object, whose attributes are strings.
\<close>

definition zeroSizeObject :: DiagramObject where
  "zeroSizeObject =
     DiagramObject ''o1'' ''a''
       \<lparr>b_x = Num 10, b_y = Num 20, b_width = Num 0, b_height = Num 0\<rparr> None None None"

definition zeroSizeModel :: ArchiMateModel where
  "zeroSizeModel =
     \<lparr>m_id = ''m2'', m_name = ''Flat'', m_version = ''5.0.0'', m_documentation = None,
      m_folders =
        [ArchiMateFolder ''f1'' ''Business'' ''business''
           [\<lparr>e_id = ''a'', e_type = ''BusinessActor'', e_name = ''Actor'',
             e_documentation = None, e_properties = None\<rparr>] []],
      m_relationships = [],
      m_diagrams =
        [\<lparr>d_id = ''d1'', d_name = ''View'', d_viewpoint = None, d_documentation = None,
          d_objects = [zeroSizeObject]\<rparr>]\<rparr>"

definition zeroSizeTree :: FlatModel where
  "zeroSizeTree =
     \<lparr>fm_identifier = Some (JString ''m2''),
      fm_name = Some (TextObject ''en'' (Some (JString ''Flat''))),
      fm_documentation = None,
      fm_element =
        [\<lparr>fe_identifier = Some (JString ''a''), fe_xsi_type = Some (JString ''BusinessActor''),
          fe_type = None, fe_name = Some (TextObject ''en'' (Some (JString ''Actor''))),
          fe_documentation = None\<rparr>],
      fm_relationship = [],
      fm_view =
        [\<lparr>fv_identifier = Some (JString ''d1''), fv_viewpoint = None,
          fv_name = Some (TextObject ''en'' (Some (JString ''View''))),
          fv_documentation = None,
          fv_node =
            [\<lparr>fn_identifier = Some (JString ''o1''), fn_elementRef = Some (JString ''a''),
              fn_x = Some (Num 10), fn_y = Some (Num 20), fn_w = Some (Num 0),
              fn_h = Some (Num 0)\<rparr>],
          fv_connection = []\<rparr>]\<rparr>"

definition zeroSizeDocument :: ParsedDocument where
  "zeroSizeDocument = \<lparr>pd_model = Some zeroSizeTree, pd_archimate_model = None\<rparr>"

definition zeroSizeBounds :: XmlBounds where
  "zeroSizeBounds =
     \<lparr>xb_x = Some ''10'', xb_y = Some ''20'', xb_width = Some ''0'', xb_height = Some ''0''\<rparr>"

section \<open>Properties of the classifier and of the validity engine\<close>

lemmas kind_tables =
  MotivationElementTypes_def StrategyElementTypes_def BusinessElementTypes_def
  ApplicationElementTypes_def TechnologyElementTypes_def ImplementationElementTypes_def
  CompositeElementTypes_def physicalTypes_def

lemmas category_tables =
  activeStructure_def interfaces_def behaviorInternal_def services_def events_def
  passiveStructure_def strategy_def motivation_def implMigration_def composite_def

lemma layer_of_enumerated:
  "k \<in> set AllElementTypes \<Longrightarrow> \<exists>l. getLayerForElementType k = Inr l"
  by (auto simp: getLayerForElementType_def AllElementTypes_def)

lemma layer_of_unknown:
  "k \<notin> set AllElementTypes \<Longrightarrow> getLayerForElementType k = Inl (UnknownElementType k)"
  by (simp add: getLayerForElementType_def AllElementTypes_def)

lemma category_of_unknown:
  "k \<notin> set AllElementTypes \<Longrightarrow> getElementCategory k = ''Composite''"
  by (simp add: getElementCategory_def AllElementTypes_def kind_tables category_tables)

lemma category_in_range: "getElementCategory k \<in> set specCategories"
  by (simp add: getElementCategory_def specCategories_def)

lemma WorkPackage_category: "getElementCategory ''WorkPackage'' = ''ImplementationMigration''"
  by (simp add: getElementCategory_def category_tables)

lemma WorkPackage_layer: "getLayerForElementType ''WorkPackage'' = Inr Implementation"
  by (simp add: getLayerForElementType_def kind_tables)

lemma BusinessActor_enumerated: "''BusinessActor'' \<in> set AllElementTypes"
  by (simp add: AllElementTypes_def kind_tables)

lemma DataObject_enumerated: "''DataObject'' \<in> set AllElementTypes"
  by (simp add: AllElementTypes_def kind_tables)

lemma Unicorn_not_enumerated: "''Unicorn'' \<notin> set AllElementTypes"
  by (simp add: AllElementTypes_def kind_tables)

text \<open>
  C1. \<open>validateRelationship\<close> on DataObject, BusinessActor and Assignment returns a result
  that is not valid, whose message names the rejected kind and whose suggestions are
  exactly Realization, Serving, Association, Flow, in the order of the enumeration of
  the eleven relationship kinds.
\<close>

theorem validate_DataObject_BusinessActor_Assignment:
  "validateRelationship ''DataObject'' ''BusinessActor'' ''Assignment'' =
     Inr \<lparr>valid = False,
          error = Some ''Assignment is not a valid relationship between DataObject and BusinessActor'',
          suggestions = Some [''Realization'', ''Serving'', ''Association'', ''Flow'']\<rparr>"
  by (simp add: validateRelationship_def getValidRelationshipTypes_def isValidRelationship_def
      relationshipSwitch_def isSameLayer_def getLayerForElementType_def getElementCategory_def
      kind_tables category_tables)

text \<open>
  C6. \<open>getLayerForElementType\<close> returns a layer for every kind of the enumeration and
  throws the unknown-kind error, naming the kind, for every kind outside it;
  \<open>getElementCategory\<close> never throws, returns one of the ten categories for every kind,
  and returns Composite for every kind outside the enumeration.
\<close>

theorem layer_total_category_defaults:
  "(\<forall>k \<in> set AllElementTypes. \<exists>l. getLayerForElementType k = Inr l) \<and>
   (\<forall>k. k \<notin> set AllElementTypes \<longrightarrow>
        getLayerForElementType k = Inl (UnknownElementType k)) \<and>
   (\<forall>k. getElementCategory k \<in> set specCategories) \<and>
   (\<forall>k. k \<notin> set AllElementTypes \<longrightarrow> getElementCategory k = ''Composite'')"
  using layer_of_enumerated layer_of_unknown category_in_range category_of_unknown
  by blast

theorem layer_total_category_defaults_witness:
  "''BusinessActor'' \<in> set AllElementTypes \<and>
   (\<exists>l. getLayerForElementType ''BusinessActor'' = Inr l) \<and>
   ''Unicorn'' \<notin> set AllElementTypes \<and>
   getLayerForElementType ''Unicorn'' = Inl (UnknownElementType ''Unicorn'') \<and>
   getElementCategory ''Unicorn'' = ''Composite''"
proof -
  note t = layer_total_category_defaults
  from t BusinessActor_enumerated
  have a: "\<exists>l. getLayerForElementType ''BusinessActor'' = Inr l" by blast
  from t Unicorn_not_enumerated
  have b: "getLayerForElementType ''Unicorn'' = Inl (UnknownElementType ''Unicorn'')" by blast
  from t Unicorn_not_enumerated
  have c: "getElementCategory ''Unicorn'' = ''Composite''" by blast
  from a b c BusinessActor_enumerated Unicorn_not_enumerated show ?thesis by blast
qed

text \<open>
  C9. For source and target kinds of the enumeration, a Specialization is valid exactly
  when the two kinds are equal.
\<close>

theorem specialization_iff_same_kind:
  "\<forall>s \<in> set AllElementTypes. \<forall>t \<in> set AllElementTypes.
     isValidRelationship s t ''Specialization'' = Inr (s = t)"
proof (intro ballI)
  fix s t
  assume "s \<in> set AllElementTypes" and "t \<in> set AllElementTypes"
  then obtain ls lt where
    "getLayerForElementType s = Inr ls" and "getLayerForElementType t = Inr lt"
    using layer_of_enumerated by blast
  then show "isValidRelationship s t ''Specialization'' = Inr (s = t)"
    by (simp add: isValidRelationship_def relationshipSwitch_def)
qed

theorem specialization_iff_same_kind_witness:
  "''BusinessActor'' \<in> set AllElementTypes \<and> ''DataObject'' \<in> set AllElementTypes \<and>
   isValidRelationship ''BusinessActor'' ''BusinessActor'' ''Specialization'' = Inr True \<and>
   isValidRelationship ''BusinessActor'' ''DataObject'' ''Specialization'' = Inr False"
proof -
  note t = specialization_iff_same_kind
  from t BusinessActor_enumerated
  have a: "isValidRelationship ''BusinessActor'' ''BusinessActor'' ''Specialization'' =
             Inr (''BusinessActor'' = ''BusinessActor'')"
    by blast
  from t BusinessActor_enumerated DataObject_enumerated
  have b: "isValidRelationship ''BusinessActor'' ''DataObject'' ''Specialization'' =
             Inr (''BusinessActor'' = ''DataObject'')"
    by blast
  from a b BusinessActor_enumerated DataObject_enumerated show ?thesis by simp
qed

text \<open>
  C10. No Assignment with source kind WorkPackage is valid, whatever enumerated target
  kind: the category of WorkPackage is ImplementationMigration, so none of the three
  branches of the Assignment rule holds; the branch that names WorkPackage also asks for
  the category ActiveStructure and can be taken for no source kind.
\<close>

theorem WorkPackage_never_assigns:
  "getElementCategory ''WorkPackage'' = ''ImplementationMigration'' \<and>
   (\<forall>s. \<not> (s = ''WorkPackage'' \<and> getElementCategory s = ''ActiveStructure'')) \<and>
   (\<forall>t \<in> set AllElementTypes.
      isValidRelationship ''WorkPackage'' t ''Assignment'' = Inr False)"
proof (intro conjI ballI allI)
  show "getElementCategory ''WorkPackage'' = ''ImplementationMigration''"
    by (rule WorkPackage_category)
next
  fix s
  show "\<not> (s = ''WorkPackage'' \<and> getElementCategory s = ''ActiveStructure'')"
    by (auto simp: WorkPackage_category)
next
  fix t
  assume "t \<in> set AllElementTypes"
  then obtain lt where "getLayerForElementType t = Inr lt"
    using layer_of_enumerated by blast
  then show "isValidRelationship ''WorkPackage'' t ''Assignment'' = Inr False"
    by (simp add: isValidRelationship_def relationshipSwitch_def
        WorkPackage_category WorkPackage_layer)
qed

theorem WorkPackage_never_assigns_witness:
  "''BusinessActor'' \<in> set AllElementTypes \<and>
   isValidRelationship ''WorkPackage'' ''BusinessActor'' ''Assignment'' = Inr False"
proof -
  from WorkPackage_never_assigns BusinessActor_enumerated
  have "isValidRelationship ''WorkPackage'' ''BusinessActor'' ''Assignment'' = Inr False"
    by blast
  with BusinessActor_enumerated show ?thesis by blast
qed

section \<open>Cascading removal\<close>

lemma removeElement_relationships:
  "\<forall>r \<in> set (m_relationships (removeElementFromModel model elementId)).
     r_sourceId r \<noteq> elementId \<and> r_targetId r \<noteq> elementId"
  by (simp add: removeElementFromModel_def)

lemma removeElement_top_level_objects:
  "\<forall>d \<in> set (m_diagrams (removeElementFromModel model elementId)).
     \<forall>obj \<in> set (d_objects d). o_elementId obj \<noteq> elementId"
  by (auto simp add: removeElementFromModel_def)

lemma removeRelationship_relationships:
  "\<forall>r \<in> set (m_relationships (removeRelationshipFromModel model relationshipId)).
     r_id r \<noteq> relationshipId"
  by (simp add: removeRelationshipFromModel_def)

text \<open>
  C4. After \<open>removeElementFromModel\<close> no relationship and no diagram object refers to
  the removed element, also when its diagram object is nested in another one. The code
  filters the top-level objects of each diagram only: in \<open>nestedModel\<close>, removing element
  \<open>b\<close> removes its relationship and leaves its nested diagram object in the diagram.
\<close>

theorem removeElement_leaves_nested_object:
  "m_relationships (removeElementFromModel nestedModel ''b'') = [] \<and>
   filter (\<lambda>obj. o_elementId obj = ''b'')
     (allDiagramObjects (removeElementFromModel nestedModel ''b'')) = [nestedChild]"
  by (simp add: removeElementFromModel_def nestedModel_def nestedParent_def nestedChild_def
      allDiagramObjects_def)

text \<open>
  C5. After \<open>removeRelationshipFromModel\<close> no relationship has the removed id and no
  diagram connection refers to it, also when the connection is held by a nested diagram
  object. The code filters the connections of the top-level objects only: in
  \<open>nestedModel\<close>, removing relationship \<open>r1\<close> leaves the connection of the nested object.
\<close>

theorem removeRelationship_leaves_nested_connection:
  "m_relationships (removeRelationshipFromModel nestedModel ''r1'') = [] \<and>
   filter (\<lambda>c. c_relationshipId c = ''r1'')
     (allDiagramConnections (removeRelationshipFromModel nestedModel ''r1'')) =
     [nestedConnection]"
  by (simp add: removeRelationshipFromModel_def nestedModel_def nestedParent_def
      nestedChild_def allDiagramObjects_def allDiagramConnections_def connectionsOf_def
      nestedConnection_def)

section \<open>Reading the hierarchical format\<close>

lemma AccessRelationship_type:
  "XmlTypeToRelationshipType ''archimate:AccessRelationship'' = Some ''Access''"
  by (simp add: XmlTypeToRelationshipType_def XmlTypeToRelationshipType_entries_def
      RelationshipTypes_def)

lemma parseRelationship_accessElement:
  "code \<noteq> [] \<Longrightarrow>
   map_option r_accessType (parseRelationship (accessElement code)) = Some (accessMap code)"
  by (simp add: parseRelationship_def accessElement_def emptyFields_def truthy_def
      AccessRelationship_type)

text \<open>
  C7. The access type of an Access relationship is decoded from the attribute
  \<open>accessType\<close>: \<open>1\<close> and \<open>read\<close> give Read, \<open>2\<close> and \<open>write\<close> give Write, \<open>3\<close> and
  \<open>readWrite\<close> give ReadWrite, and any other value ReadWrite. The code decodes the six
  codes so and leaves the access type undefined on any other value, here \<open>4\<close>.
\<close>

theorem accessType_decoding_has_no_default:
  "map (\<lambda>code. map_option r_accessType (parseRelationship (accessElement code)))
     [''1'', ''read'', ''2'', ''write'', ''3'', ''readWrite'', ''4''] =
   [Some (Some Read), Some (Some Read), Some (Some Write), Some (Some Write),
    Some (Some ReadWrite), Some (Some ReadWrite), Some None]"
  by (simp add: parseRelationship_accessElement accessMap_def)

text \<open>
  C8, as stated: reading fails exactly when the file does not exist or the parsed
  document lacks the root element, and returns a model in every other case. In the first
  environment the file exists and holds a root element, an empty one, and both parsers
  fail with the missing-root error; in the second the path exists, reading it fails and
  so do both parsers.
\<close>

theorem read_fails_on_present_root_or_unreadable_file:
  "existsSync emptyRootEnvironment (modelFilePath emptyRootEnvironment ''repo'') \<and>
   readFile emptyRootEnvironment (modelFilePath emptyRootEnvironment ''repo'') =
     Inr ''<archimate:model/>'' \<and>
   xmlParse emptyRootEnvironment ''<archimate:model/>'' = Inr RootEmptyString \<and>
   RootEmptyString \<noteq> RootUndefined \<and>
   parseModelComplete emptyRootEnvironment ''repo'' = Inl MissingRootElement \<and>
   parseModel emptyRootEnvironment ''repo'' = Inl MissingRootElement \<and>
   existsSync unreadableEnvironment (modelFilePath unreadableEnvironment ''repo.archimate'') \<and>
   parseModelComplete unreadableEnvironment ''repo.archimate'' = Inl ReadFileFailed \<and>
   parseModel unreadableEnvironment ''repo.archimate'' = Inl ReadFileFailed"
  by (simp add: emptyRootEnvironment_def unreadableEnvironment_def parseModelComplete_def
      parseModel_def readRoot_def)

text \<open>
  C8, amended: with \<open>filePath\<close> the path itself when it ends in \<open>.archimate\<close> and the
  default file name joined to it otherwise, both parsers fail with the not-found error
  naming \<open>filePath\<close> when no file is there; with the error of \<open>readFile\<close> or of the XML
  parser when one of them fails; with the missing-root error when the parsed document
  holds nothing, or the empty string, under the root key; and return the model of the
  root object in the one remaining case.
\<close>

theorem read_outcomes:
  fixes env :: Environment and modelPath :: string
  defines "filePath \<equiv> modelFilePath env modelPath"
  shows
  "(\<not> existsSync env filePath \<longrightarrow>
      parseModelComplete env modelPath = Inl (ModelFileNotFound filePath) \<and>
      parseModel env modelPath = Inl (ModelFileNotFound filePath)) \<and>
   (existsSync env filePath \<longrightarrow>
      (case readFile env filePath of
         Inl e \<Rightarrow>
           parseModelComplete env modelPath = Inl e \<and> parseModel env modelPath = Inl e
       | Inr xmlContent \<Rightarrow>
          (case xmlParse env xmlContent of
             Inl e \<Rightarrow>
               parseModelComplete env modelPath = Inl e \<and> parseModel env modelPath = Inl e
           | Inr RootUndefined \<Rightarrow>
               parseModelComplete env modelPath = Inl MissingRootElement \<and>
               parseModel env modelPath = Inl MissingRootElement
           | Inr RootEmptyString \<Rightarrow>
               parseModelComplete env modelPath = Inl MissingRootElement \<and>
               parseModel env modelPath = Inl MissingRootElement
           | Inr (RootObject xmlModel) \<Rightarrow>
               parseModelComplete env modelPath = Inr (parseModelComplete_root xmlModel) \<and>
               parseModel env modelPath = Inr (parseModel_root xmlModel))))"
  by (simp add: parseModelComplete_def parseModel_def readRoot_def filePath_def
      split: sum.splits ParsedRoot.splits)

theorem read_outcomes_witness:
  "\<not> existsSync repositoryEnvironment (modelFilePath repositoryEnvironment ''elsewhere'') \<and>
   parseModelComplete repositoryEnvironment ''elsewhere'' =
     Inl (ModelFileNotFound ''elsewhere/model.archimate'') \<and>
   existsSync repositoryEnvironment (modelFilePath repositoryEnvironment ''repo'') \<and>
   parseModelComplete repositoryEnvironment ''repo'' =
     Inr (parseModelComplete_root (writeModel_xmlObj nestedModel))"
proof -
  have p1: "modelFilePath repositoryEnvironment ''elsewhere'' = ''elsewhere/model.archimate''"
    by (simp add: modelFilePath_def endsWith_def repositoryEnvironment_def MODEL_FILENAME_def)
  have p2: "modelFilePath repositoryEnvironment ''repo'' = ''repo/model.archimate''"
    by (simp add: modelFilePath_def endsWith_def repositoryEnvironment_def MODEL_FILENAME_def)
  have e1: "\<not> existsSync repositoryEnvironment ''elsewhere/model.archimate''"
    by (simp add: repositoryEnvironment_def)
  have e2: "existsSync repositoryEnvironment ''repo/model.archimate''"
    by (simp add: repositoryEnvironment_def)
  have r: "readFile repositoryEnvironment ''repo/model.archimate'' =
             Inr ''<archimate:model name=Nested id=m1/>''"
    by (simp add: repositoryEnvironment_def)
  have x: "xmlParse repositoryEnvironment ''<archimate:model name=Nested id=m1/>'' =
             Inr (RootObject (writeModel_xmlObj nestedModel))"
    by (simp add: repositoryEnvironment_def)
  from read_outcomes [of repositoryEnvironment "''elsewhere''"] e1
  have a: "parseModelComplete repositoryEnvironment ''elsewhere'' =
             Inl (ModelFileNotFound ''elsewhere/model.archimate'')"
    unfolding p1 by blast
  from read_outcomes [of repositoryEnvironment "''repo''"] e2
  have b: "parseModelComplete repositoryEnvironment ''repo'' =
             Inr (parseModelComplete_root (writeModel_xmlObj nestedModel))"
    unfolding p2 by (simp add: r x)
  from a b e1 e2 show ?thesis unfolding p1 p2 by simp
qed
section \<open>What the hierarchical writer leaves out\<close>

text \<open>
  The first parser never returns a relationship: \<open>extractRelationships\<close> has an empty
  body and nothing else pushes onto \<open>model.relationships\<close>. This holds for every tree
  that the XML parser may return, so for every file.
\<close>

lemma parseModel_root_no_relationships: "m_relationships (parseModel_root xmlModel) = []"
proof -
  have keep: "m_relationships (foldl step model xfs) = m_relationships model"
    if "\<And>model xf. m_relationships (step model xf) = m_relationships model"
    for step :: "ArchiMateModel \<Rightarrow> XmlFolder \<Rightarrow> ArchiMateModel" and model xfs
    using that by (induction xfs arbitrary: model) simp_all
  show ?thesis
    unfolding parseModel_root_def
    by (subst keep) (simp_all add: Let_def extractRelationships_def modelOfRoot_def)
qed

lemma parseModel_returns_no_relationship:
  "parseModel env modelPath = Inr model \<Longrightarrow> m_relationships model = []"
  by (auto simp add: parseModel_def parseModel_root_no_relationships split: sum.splits)

text \<open>
  \<open>writeModel\<close> writes the relationships of the model into the top-level folders tagged
  \<open>relations\<close> and the diagrams into those tagged \<open>diagrams\<close>, and nowhere else. Without
  such a folder the file does not depend on the relationships, or on the diagrams, of
  the model, whatever the XML builder does with the tree.
\<close>

lemma writeFolder_ignores_relationships:
  "f_type folder \<noteq> ''relations'' \<Longrightarrow>
   writeFolder (model\<lparr>m_relationships := rels\<rparr>) folder = writeFolder model folder"
  by (simp add: writeFolder_def)

lemma writeFolder_ignores_diagrams:
  "f_type folder \<noteq> ''diagrams'' \<Longrightarrow>
   writeFolder (model\<lparr>m_diagrams := diags\<rparr>) folder = writeFolder model folder"
  by (simp add: writeFolder_def)

lemma writeModel_ignores_relationships:
  "\<forall>folder \<in> set (m_folders model). f_type folder \<noteq> ''relations'' \<Longrightarrow>
   writeModel build joinPath (model\<lparr>m_relationships := rels\<rparr>) outputPath =
   writeModel build joinPath model outputPath"
  by (simp add: writeModel_def writeModel_xmlObj_def writeFolder_ignores_relationships
      cong: map_cong)

lemma writeModel_ignores_diagrams:
  "\<forall>folder \<in> set (m_folders model). f_type folder \<noteq> ''diagrams'' \<Longrightarrow>
   writeModel build joinPath (model\<lparr>m_diagrams := diags\<rparr>) outputPath =
   writeModel build joinPath model outputPath"
  by (simp add: writeModel_def writeModel_xmlObj_def writeFolder_ignores_diagrams
      cong: map_cong)

text \<open>The writer of the exchange format writes every relationship of every model.\<close>

lemma exchange_writer_writes_every_relationship:
  "map fr_identifier (fm_relationship (writeExchangeFormat_obj model)) =
   map (\<lambda>rel. Some (JString (r_id rel))) (m_relationships model)"
  by (simp add: writeExchangeFormat_obj_def exchange_buildRelationship_def)

lemma nestedModel_written:
  "xm_folder (writeModel_xmlObj nestedModel) =
     [XmlFolder ''Business'' ''f1'' (Some ''business'')
        [XmlElement
           (emptyFields
              \<lparr>xe_xsi_type := Some ''archimate:BusinessActor'', xe_name := Some ''Actor'',
               xe_id := Some ''a''\<rparr>) [],
         XmlElement
           (emptyFields
              \<lparr>xe_xsi_type := Some ''archimate:BusinessRole'', xe_name := Some ''Role'',
               xe_id := Some ''b''\<rparr>) []]
        []]"
  by (simp add: writeModel_xmlObj_def nestedModel_def writeFolder_def buildElement_def
      buildProperties_def ElementTypeToXmlType_def XmlTypeToElementType_entries_def
      AllElementTypes_def kind_tables truthy_def orElse_def emptyFields_def Let_def)

text \<open>
  C2. For every model, reading back what the hierarchical writer wrote gives every
  relationship and every diagram object back. \<open>nestedModel\<close> has one relationship and
  one diagram, and its only folder is tagged \<open>business\<close>. The tree that \<open>writeModel\<close>
  builds for it holds the folder with its two elements and nothing else; the file
  written is, for every XML builder and every path, the file written for the same model
  without its relationship and its diagram; and \<open>parseModelComplete\<close>, run on that tree,
  returns the two elements, no relationship and no diagram.
\<close>

theorem hierarchical_write_drops_relationships:
  "map r_id (m_relationships nestedModel) = [''r1''] \<and>
   map d_id (m_diagrams nestedModel) = [''d1''] \<and>
   map f_type (m_folders nestedModel) = [''business''] \<and>
   map (\<lambda>folder. map (xe_id \<circ> xe_fields) (xf_element folder))
     (xm_folder (writeModel_xmlObj nestedModel)) = [[Some ''a'', Some ''b'']] \<and>
   map xf_folder (xm_folder (writeModel_xmlObj nestedModel)) = [[]] \<and>
   writeModel build joinPath nestedModel outputPath =
     writeModel build joinPath (nestedModel\<lparr>m_relationships := [], m_diagrams := []\<rparr>)
       outputPath \<and>
   map e_id (getAllElements (parseModelComplete_root (writeModel_xmlObj nestedModel))) =
     [''a'', ''b''] \<and>
   m_relationships (parseModelComplete_root (writeModel_xmlObj nestedModel)) = [] \<and>
   m_diagrams (parseModelComplete_root (writeModel_xmlObj nestedModel)) = []"
proof -
  have same: "writeModel_xmlObj (nestedModel\<lparr>m_relationships := [], m_diagrams := []\<rparr>) =
              writeModel_xmlObj nestedModel"
    by (simp add: writeModel_xmlObj_def nestedModel_def writeFolder_def)
  have actor: "XmlTypeToRelationshipType ''archimate:BusinessActor'' = None"
    by (simp add: XmlTypeToRelationshipType_def XmlTypeToRelationshipType_entries_def
        RelationshipTypes_def)
  have role: "XmlTypeToRelationshipType ''archimate:BusinessRole'' = None"
    by (simp add: XmlTypeToRelationshipType_def XmlTypeToRelationshipType_entries_def
        RelationshipTypes_def)
  have actor_kind: "XmlTypeToElementType ''archimate:BusinessActor'' = Some ''BusinessActor''"
    by (simp add: XmlTypeToElementType_def XmlTypeToElementType_entries_def
        AllElementTypes_def kind_tables)
  have role_kind: "XmlTypeToElementType ''archimate:BusinessRole'' = Some ''BusinessRole''"
    by (simp add: XmlTypeToElementType_def XmlTypeToElementType_entries_def
        AllElementTypes_def kind_tables)
  have read: "parseModelComplete_root (writeModel_xmlObj nestedModel) =
        \<lparr>m_id = ''m1'', m_name = ''Nested'', m_version = ''5.0.0'', m_documentation = None,
         m_folders =
           [ArchiMateFolder ''f1'' ''Business'' ''business''
              [\<lparr>e_id = ''a'', e_type = ''BusinessActor'', e_name = ''Actor'',
                e_documentation = None, e_properties = Some []\<rparr>,
               \<lparr>e_id = ''b'', e_type = ''BusinessRole'', e_name = ''Role'',
                e_documentation = None, e_properties = Some []\<rparr>] []],
         m_relationships = [], m_diagrams = []\<rparr>"
    unfolding parseModelComplete_root_def nestedModel_written
    by (simp add: writeModel_xmlObj_def nestedModel_def modelOfRoot_def processElement_def
        parseElement_def parseProperties_def actor role actor_kind role_kind truthy_def
        orElse_def emptyFields_def Let_def)
  show ?thesis
    unfolding read
    by (simp add: nestedModel_written writeModel_def same getAllElements_def emptyFields_def)
       (simp add: nestedModel_def)
qed

section \<open>What the reader of the exchange format makes of a zero\<close>

text \<open>
  The hierarchical codec keeps a width and a height of zero: its writer prints the
  numbers, and its reader applies the defaults to the attribute text, where \<open>0\<close> is a
  non-empty string, before it parses the number.
\<close>

lemma parseInt_zero: "parseInt ''0'' = Num 0"
  by (simp add: parseInt_def isWhiteSpace_def isDigit_def digitsValue_def)

lemma parseInt_ten: "parseInt ''10'' = Num 10"
  by (simp add: parseInt_def isWhiteSpace_def isDigit_def digitsValue_def)

lemma parseInt_twenty: "parseInt ''20'' = Num 20"
  by (simp add: parseInt_def isWhiteSpace_def isDigit_def digitsValue_def)

lemma hierarchical_codec_keeps_zero_size:
  "xe_bounds (xe_fields (buildDiagramObject zeroSizeObject)) = Some zeroSizeBounds \<and>
   parseBounds (Some zeroSizeBounds) = o_bounds zeroSizeObject"
proof -
  have d0: "decimalDigits 0 = ''0''"
    by (subst decimalDigits.simps) (simp add: digitChar_def char_of_def)
  have d1: "decimalDigits 1 = ''1''"
    by (subst decimalDigits.simps) (simp add: digitChar_def char_of_def)
  have d2: "decimalDigits 2 = ''2''"
    by (subst decimalDigits.simps) (simp add: digitChar_def char_of_def)
  have d10: "decimalDigits 10 = ''10''"
    by (subst decimalDigits.simps) (simp add: digitChar_def char_of_def d1)
  have d20: "decimalDigits 20 = ''20''"
    by (subst decimalDigits.simps) (simp add: digitChar_def char_of_def d2)
  have w: "xe_bounds (xe_fields (buildDiagramObject zeroSizeObject)) = Some zeroSizeBounds"
    by (simp add: zeroSizeObject_def zeroSizeBounds_def numberToString_def d0 d10 d20 Let_def)
  have r: "parseBounds (Some zeroSizeBounds) = o_bounds zeroSizeObject"
    by (simp add: parseBounds_def boundsAttribute_def zeroSizeBounds_def orElse_def
        parseInt_zero parseInt_ten parseInt_twenty zeroSizeObject_def)
  from w r show ?thesis by simp
qed

text \<open>
  What the coercions of the reader make of a value that is no string: an identifier that
  its parser delivers as a number is printed by \<open>String\<close>, and a name that is an
  object without a text is printed as an object.
\<close>

lemma exchange_reader_prints_what_it_gets:
  "map_option (\<lambda>element. (e_id element, e_name element))
     (exchange_parseElement
        \<lparr>fe_identifier = Some (JNumber (Num 7)), fe_xsi_type = Some (JString ''BusinessActor''),
         fe_type = None, fe_name = Some (TextObject ''en'' None), fe_documentation = None\<rparr>) =
   Some (''7'', ''[object Object]'')"
proof -
  have d7: "decimalDigits 7 = ''7''"
    by (subst decimalDigits.simps) (simp add: digitChar_def char_of_def)
  show ?thesis
    using BusinessActor_enumerated
    by (simp add: exchange_parseElement_def typeAttribute_def stringOrEmpty_def jsTruthy_def
        jsString_def mapElementType_def getText_def numberToString_def d7)
qed

lemma zeroSizeModel_written: "writeExchangeFormat_obj zeroSizeModel = zeroSizeTree"
  by (simp add: writeExchangeFormat_obj_def zeroSizeModel_def zeroSizeTree_def
      zeroSizeObject_def getAllElements_def exchange_buildElement_def buildView_def
      buildDiagramNode_def english_def truthy_def connectionsOf_def)

text \<open>
  C3. For every model, parsing what the writer of the exchange format wrote gives the
  bounds of every diagram object back. The only diagram object of \<open>zeroSizeModel\<close> has
  the bounds 10, 20, 0, 0. The writer builds a node with the attributes \<open>x\<close>, \<open>y\<close>, \<open>w\<close>,
  \<open>h\<close> set to these numbers; the reader, given the document that its parser returns for
  the text written, returns the object with the bounds 10, 20, 120, 55: \<open>Number(v) || 120\<close>
  and \<open>Number(v) || 55\<close> take the zero for a missing value.
\<close>

theorem flat_read_defaults_zero_size:
  "map (map o_bounds \<circ> d_objects) (m_diagrams zeroSizeModel) =
     [[\<lparr>b_x = Num 10, b_y = Num 20, b_width = Num 0, b_height = Num 0\<rparr>]] \<and>
   map fv_node (fm_view (writeExchangeFormat_obj zeroSizeModel)) =
     [[\<lparr>fn_identifier = Some (JString ''o1''), fn_elementRef = Some (JString ''a''),
        fn_x = Some (Num 10), fn_y = Some (Num 20), fn_w = Some (Num 0),
        fn_h = Some (Num 0)\<rparr>]] \<and>
   pd_model zeroSizeDocument = Some (writeExchangeFormat_obj zeroSizeModel) \<and>
   map_sum id (\<lambda>model1. map (map o_bounds \<circ> d_objects) (m_diagrams model1))
     (parseExchangeFormat (\<lambda>xmlContent. Inr zeroSizeDocument)
        (writeExchangeFormat build zeroSizeModel)) =
     Inr [[\<lparr>b_x = Num 10, b_y = Num 20, b_width = Num 120, b_height = Num 55\<rparr>]]"
proof -
  have a: "''BusinessActor'' \<in> set AllElementTypes" by (rule BusinessActor_enumerated)
  have l: "getLayerForElementType ''BusinessActor'' = Inr Business"
    by (simp add: getLayerForElementType_def kind_tables)
  have p: "exchange_parseElement
             \<lparr>fe_identifier = Some (JString ''a''), fe_xsi_type = Some (JString ''BusinessActor''),
              fe_type = None, fe_name = Some (TextObject ''en'' (Some (JString ''Actor''))),
              fe_documentation = None\<rparr> =
           Some \<lparr>e_id = ''a'', e_type = ''BusinessActor'', e_name = ''Actor'',
                 e_documentation = None, e_properties = Some []\<rparr>"
    using a by (simp add: exchange_parseElement_def typeAttribute_def stringOrEmpty_def
        jsTruthy_def jsString_def mapElementType_def getText_def orUndefined_def)
  have pe: "isl (placeElements (fm_element zeroSizeTree) createFolderStructure) = False"
    by (simp add: zeroSizeTree_def p pushToFolderForType_def l createFolderStructure_def)
  have dg: "map (map o_bounds \<circ> d_objects) (map exchange_parseDiagram (fm_view zeroSizeTree)) =
          [[\<lparr>b_x = Num 10, b_y = Num 20, b_width = Num 120, b_height = Num 55\<rparr>]]"
    by (simp add: zeroSizeTree_def exchange_parseDiagram_def exchange_parseDiagramObject_def
        numberOr_def Let_def)
  have read: "map_sum id (\<lambda>model1. map (map o_bounds \<circ> d_objects) (m_diagrams model1))
     (parseExchangeFormat_root zeroSizeTree) =
     Inr [[\<lparr>b_x = Num 10, b_y = Num 20, b_width = Num 120, b_height = Num 55\<rparr>]]"
    using pe dg
    by (cases "placeElements (fm_element zeroSizeTree) createFolderStructure")
       (simp_all add: parseExchangeFormat_root_def Let_def)
  have orig: "map (map o_bounds \<circ> d_objects) (m_diagrams zeroSizeModel) =
     [[\<lparr>b_x = Num 10, b_y = Num 20, b_width = Num 0, b_height = Num 0\<rparr>]]"
    by (simp add: zeroSizeModel_def zeroSizeObject_def)
  have nodes: "map fv_node (fm_view zeroSizeTree) =
     [[\<lparr>fn_identifier = Some (JString ''o1''), fn_elementRef = Some (JString ''a''),
        fn_x = Some (Num 10), fn_y = Some (Num 20), fn_w = Some (Num 0),
        fn_h = Some (Num 0)\<rparr>]]"
    by (simp add: zeroSizeTree_def)
  show ?thesis
    unfolding zeroSizeModel_written
    using orig nodes read by (simp add: parseExchangeFormat_def zeroSizeDocument_def)
qed

end
